theory Spec2Isabelle
  imports Complex_Main "HOL-Library.AList"
begin

section \<open>JavaScript values and strings\<close>

text \<open>
  Cells of a worksheet and the fields of the loosely typed objects of the source
  (\<^verbatim>\<open>any\<close>) hold primitive JavaScript values. Numbers are exact rationals: rounding of
  binary doubles, \<^verbatim>\<open>NaN\<close> and the infinities are outside this type. Strings are lists of
  characters.
\<close>

datatype js_value = JNull | JUndefined | JString string | JNumber rat | JBoolean bool

datatype js_error = Error string | TypeError string | SyntaxError string

fun message :: "js_error \<Rightarrow> string" where
  "message (Error m) = m"
| "message (TypeError m) = m"
| "message (SyntaxError m) = m"

definition digit_char :: "nat \<Rightarrow> char" where
  "digit_char n = ''0123456789'' ! (n mod 10)"

function show_nat :: "nat \<Rightarrow> string" where
  "show_nat n = (if n < 10 then [digit_char n] else show_nat (n div 10) @ [digit_char (n mod 10)])"
  by pat_completeness auto
termination
  by (relation "measure id") auto

declare show_nat.simps [simp del]

definition show_int :: "int \<Rightarrow> string" where
  "show_int i = (if i < 0 then CHR ''-'' # show_nat (nat (- i)) else show_nat (nat i))"

fun frac_digits :: "nat \<Rightarrow> rat \<Rightarrow> string" where
  "frac_digits 0 r = []"
| "frac_digits (Suc k) r =
     (if r = 0 then []
      else digit_char (nat \<lfloor>r * 10\<rfloor>) # frac_digits k (r * 10 - of_int \<lfloor>r * 10\<rfloor>))"

text \<open>
  \<^verbatim>\<open>String(q)\<close> for a number: the decimal digits of an integer, as JavaScript prints every
  integer below \<open>10\<^sup>2\<^sup>1\<close>. A fraction is printed by its decimal expansion, cut after
  17 fractional digits; the shortest round-trip digits of a double and the exponent
  notation are not modelled.
\<close>

definition show_number :: "rat \<Rightarrow> string" where
  "show_number q =
     (if of_int \<lfloor>q\<rfloor> = q then show_int \<lfloor>q\<rfloor>
      else (if q < 0 then ''-'' else '''') @ show_nat (nat \<lfloor>\<bar>q\<bar>\<rfloor>) @ ''.''
           @ frac_digits 17 (\<bar>q\<bar> - of_int \<lfloor>\<bar>q\<bar>\<rfloor>))"

fun js_String :: "js_value \<Rightarrow> string" where
  "js_String JNull = ''null''"
| "js_String JUndefined = ''undefined''"
| "js_String (JString s) = s"
| "js_String (JNumber q) = show_number q"
| "js_String (JBoolean b) = (if b then ''true'' else ''false'')"

fun truthy :: "js_value \<Rightarrow> bool" where
  "truthy JNull = False"
| "truthy JUndefined = False"
| "truthy (JString s) = (s \<noteq> [])"
| "truthy (JNumber q) = (q \<noteq> 0)"
| "truthy (JBoolean b) = b"

section \<open>The workbook as the spreadsheet library returns it\<close>

text \<open>
  A worksheet of the \<^verbatim>\<open>xlsx\<close> library is an object from cell addresses to cell objects,
  with the used range under \<^verbatim>\<open>"!ref"\<close>. \<open>ws_ref\<close> is the end \<open>(e.r, e.c)\<close> of the decoded
  range, \<open>None\<close> when \<^verbatim>\<open>"!ref"\<close> is missing; \<open>ws_cells ws r c\<close> is the value \<^verbatim>\<open>cell.v\<close> of the
  cell object at row \<open>r\<close> and column \<open>c\<close>, \<open>None\<close> when the sheet has no cell object there.
\<close>

record worksheet =
  ws_ref :: "(nat \<times> nat) option"
  ws_cells :: "int \<Rightarrow> int \<Rightarrow> js_value option"

record workbook =
  SheetNames :: "string list"
  Sheets :: "string \<Rightarrow> worksheet option"

text \<open>\<^verbatim>\<open>XLSX.utils.decode_range(worksheet["!ref"] || "A1").e\<close>\<close>

definition range_e :: "worksheet \<Rightarrow> int \<times> int" where
  "range_e ws = (case ws_ref ws of None \<Rightarrow> (0, 0) | Some (r, c) \<Rightarrow> (int r, int c))"

section \<open>The chunked processor\<close>

record ChunkMetadata =
  chunkId :: string
  startRow :: int
  endRow :: int
  totalRows :: int
  sheetName :: string
  headers :: "string list"
  processed :: bool

record transformation =
  t_type :: js_value
  t_sheet :: js_value
  t_column :: js_value
  t_method :: js_value
  t_value :: js_value
  t_format :: js_value
  t_targetType :: js_value
  t_columns :: "string list option"
  t_newTableName :: "string option"
  t_delimiter :: "string option"

record log_entry =
  timestamp :: string
  log_chunkId :: string
  log_transformation :: transformation
  status :: string

text \<open>
  The state of a \<^verbatim>\<open>ChunkedExcelProcessor\<close>. \<open>source\<close> stands for the file buffer: it is what
  \<^verbatim>\<open>XLSX.read(this.fileBuffer, { type: "buffer" })\<close> does with it, the message of the
  exception it throws or the workbook it returns. The two \<^verbatim>\<open>Map\<close>s are association lists
  in insertion order; \<open>AList.update\<close> is \<^verbatim>\<open>Map.prototype.set\<close> (a present key keeps its
  place), \<open>map_of\<close> is \<^verbatim>\<open>get\<close>, \<open>AList.delete\<close> is \<^verbatim>\<open>delete\<close>.
\<close>

record processor =
  source :: "string + workbook"
  fileSize :: nat
  workbook :: "workbook option"
  sessionId :: string
  chunkSize :: int
  chunks :: "(string \<times> ChunkMetadata) list"
  processedData :: "(string \<times> js_value list list) list"
  transformationLog :: "log_entry list"

definition new_processor :: "string + workbook \<Rightarrow> nat \<Rightarrow> string \<Rightarrow> int \<Rightarrow> processor" where
  "new_processor src sz sid csize =
     \<lparr>source = src, fileSize = sz, workbook = None, sessionId = sid, chunkSize = csize,
      chunks = [], processedData = [], transformationLog = []\<rparr>"

text \<open>
  A method returns a value or throws; either way it leaves a processor state behind.
\<close>

type_synonym 'a result = "(js_error + 'a) \<times> processor"

subsection \<open>parseExcelInChunks\<close>

text \<open>
  \<^verbatim>\<open>Math.ceil(dataRows / this.chunkSize)\<close> on integers. Division by zero gives an infinity
  or \<^verbatim>\<open>NaN\<close>, which the loop test \<^verbatim>\<open>chunkIndex < numChunks\<close> then meets.
\<close>

datatype js_bound = Finite int | PosInfinity | NegInfinity | NaN

definition ceil_div :: "int \<Rightarrow> int \<Rightarrow> js_bound" where
  "ceil_div a b =
     (if b = 0 then (if a = 0 then NaN else if 0 < a then PosInfinity else NegInfinity)
      else Finite \<lceil>rat_of_int a / rat_of_int b\<rceil>)"

fun js_less :: "int \<Rightarrow> js_bound \<Rightarrow> bool" where
  "js_less i (Finite n) = (i < n)"
| "js_less i PosInfinity = True"
| "js_less i NegInfinity = False"
| "js_less i NaN = False"

definition sheet_headers :: "worksheet \<Rightarrow> string list" where
  "sheet_headers ws =
     map (\<lambda>col. case ws_cells ws 0 col of
                  Some v \<Rightarrow> js_String v
                | None \<Rightarrow> ''Column_'' @ show_int (col + 1))
         [0..snd (range_e ws)]"

definition mk_chunk :: "string \<Rightarrow> int \<Rightarrow> string \<Rightarrow> string list \<Rightarrow> int \<Rightarrow> int \<Rightarrow> ChunkMetadata" where
  "mk_chunk sid csize name hdrs sheetRows chunkIndex =
     (let start = 1 + chunkIndex * csize in
      \<lparr>chunkId = sid @ ''_'' @ name @ ''_chunk_'' @ show_int chunkIndex,
       startRow = start,
       endRow = min (start + csize - 1) (sheetRows - 1),
       totalRows = sheetRows - 1,
       sheetName = name,
       headers = hdrs,
       processed = False\<rparr>)"

text \<open>
  The inner loop \<^verbatim>\<open>for (let chunkIndex = 0; chunkIndex < numChunks; chunkIndex++)\<close>. The
  accumulator is the local array \<^verbatim>\<open>chunks\<close> and the map \<^verbatim>\<open>this.chunks\<close>. With an infinite
  bound the loop does not end: the value is \<open>None\<close>.
\<close>

partial_function (option) chunkLoop ::
  "string \<Rightarrow> int \<Rightarrow> string \<Rightarrow> string list \<Rightarrow> int \<Rightarrow> js_bound \<Rightarrow> int \<Rightarrow>
   ChunkMetadata list \<times> (string \<times> ChunkMetadata) list \<Rightarrow>
   (ChunkMetadata list \<times> (string \<times> ChunkMetadata) list) option"
where
  "chunkLoop sid csize name hdrs sheetRows numChunks chunkIndex acc =
     (if js_less chunkIndex numChunks then
        (let c = mk_chunk sid csize name hdrs sheetRows chunkIndex in
         chunkLoop sid csize name hdrs sheetRows numChunks (chunkIndex + 1)
           (fst acc @ [c], AList.update (chunkId c) c (snd acc)))
      else Some acc)"

declare chunkLoop.simps [code]

record parse_acc =
  acc_chunks :: "ChunkMetadata list"
  acc_map :: "(string \<times> ChunkMetadata) list"
  acc_totalRows :: int
  acc_totalColumns :: int

text \<open>
  The outer loop over \<^verbatim>\<open>this.workbook.SheetNames\<close>. A name with no worksheet object makes
  \<^verbatim>\<open>worksheet["!ref"]\<close> throw a \<^verbatim>\<open>TypeError\<close> (the engine's message text is abbreviated).
\<close>

fun sheetLoop ::
  "workbook \<Rightarrow> string \<Rightarrow> int \<Rightarrow> string list \<Rightarrow> parse_acc \<Rightarrow> (js_error option \<times> parse_acc) option"
where
  "sheetLoop wb sid csize [] acc = Some (None, acc)"
| "sheetLoop wb sid csize (name # names) acc =
     (case Sheets wb name of
        None \<Rightarrow> Some (Some (TypeError ''Cannot read properties of undefined''), acc)
      | Some ws \<Rightarrow>
          (let sheetRows = fst (range_e ws) + 1;
               sheetCols = snd (range_e ws) + 1;
               hdrs = sheet_headers ws;
               dataRows = sheetRows - 1;
               numChunks = ceil_div dataRows csize
           in case chunkLoop sid csize name hdrs sheetRows numChunks 0 (acc_chunks acc, acc_map acc) of
                None \<Rightarrow> None
              | Some (cs, m) \<Rightarrow>
                  sheetLoop wb sid csize names
                    \<lparr>acc_chunks = cs, acc_map = m,
                     acc_totalRows = acc_totalRows acc + sheetRows,
                     acc_totalColumns = max (acc_totalColumns acc) sheetCols\<rparr>))"

record metadata =
  md_totalRows :: int
  md_totalColumns :: int
  md_sheetNames :: "string list"
  md_fileSize :: nat

definition parseExcelInChunks :: "processor \<Rightarrow> (metadata \<times> ChunkMetadata list) result option" where
  "parseExcelInChunks st =
     (case source st of
        Inl msg \<Rightarrow> Some (Inl (Error (''Failed to parse Excel file: '' @ msg)), st)
      | Inr wb \<Rightarrow>
          (case sheetLoop wb (sessionId st) (chunkSize st) (SheetNames wb)
                  \<lparr>acc_chunks = [], acc_map = chunks st, acc_totalRows = 0, acc_totalColumns = 0\<rparr> of
             None \<Rightarrow> None
           | Some (err, acc) \<Rightarrow>
               (let st' = st\<lparr>workbook := Some wb, chunks := acc_map acc\<rparr> in
                case err of
                  Some e \<Rightarrow> Some (Inl (Error (''Failed to parse Excel file: '' @ message e)), st')
                | None \<Rightarrow>
                    Some (Inr (\<lparr>md_totalRows = acc_totalRows acc,
                                md_totalColumns = acc_totalColumns acc,
                                md_sheetNames = SheetNames wb,
                                md_fileSize = fileSize st\<rparr>,
                               acc_chunks acc), st'))))"

subsection \<open>processChunk and clearProcessedChunk\<close>

definition read_cell :: "worksheet \<Rightarrow> int \<Rightarrow> int \<Rightarrow> js_value" where
  "read_cell ws row col = (case ws_cells ws row col of None \<Rightarrow> JNull | Some v \<Rightarrow> v)"

definition chunk_rows :: "worksheet \<Rightarrow> ChunkMetadata \<Rightarrow> js_value list list" where
  "chunk_rows ws m =
     map (\<lambda>row. map (\<lambda>col. read_cell ws row col) [0..int (length (headers m)) - 1])
         [startRow m..endRow m]"

definition store_chunk :: "processor \<Rightarrow> string \<Rightarrow> ChunkMetadata \<Rightarrow> js_value list list \<Rightarrow> js_value list list result" where
  "store_chunk st cid m chunkData =
     (Inr chunkData,
      st\<lparr>processedData := AList.update cid chunkData (processedData st),
         chunks := AList.update cid (m\<lparr>processed := True\<rparr>) (chunks st)\<rparr>)"

text \<open>
  The payload is read from the workbook on every call and stored over whatever the map held
  for the chunk. A chunk whose sheet has no worksheet object makes the first cell read throw.
\<close>

definition processChunk :: "processor \<Rightarrow> string \<Rightarrow> js_value list list result" where
  "processChunk st cid =
     (case (map_of (chunks st) cid, workbook st) of
        (Some m, Some wb) \<Rightarrow>
          (case Sheets wb (sheetName m) of
             None \<Rightarrow>
               if startRow m \<le> endRow m \<and> headers m \<noteq> []
               then (Inl (TypeError ''Cannot read properties of undefined''), st)
               else store_chunk st cid m
                      (map JString (headers m) # map (\<lambda>row. []) [startRow m..endRow m])
           | Some ws \<Rightarrow> store_chunk st cid m (map JString (headers m) # chunk_rows ws m))
      | _ \<Rightarrow> (Inl (Error (''Chunk '' @ cid @ '' not found or workbook not loaded'')), st))"

definition clearProcessedChunk :: "processor \<Rightarrow> string \<Rightarrow> processor" where
  "clearProcessedChunk st cid = st\<lparr>processedData := AList.delete cid (processedData st)\<rparr>"

definition getAllChunks :: "processor \<Rightarrow> ChunkMetadata list" where
  "getAllChunks st = map snd (chunks st)"

definition getTransformationLog :: "processor \<Rightarrow> log_entry list" where
  "getTransformationLog st = transformationLog st"

subsection \<open>Array and object primitives\<close>

text \<open>Reading past the end of an array gives \<^verbatim>\<open>undefined\<close>; a negative index is no element.\<close>

definition js_nth :: "js_value list \<Rightarrow> int \<Rightarrow> js_value" where
  "js_nth row i = (if 0 \<le> i \<and> i < int (length row) then row ! nat i else JUndefined)"

text \<open>
  \<^verbatim>\<open>row[i] = v\<close>: past the end the array grows, the holes reading as \<^verbatim>\<open>undefined\<close>; a negative
  index sets a property that is no element.
\<close>

definition js_set :: "js_value list \<Rightarrow> int \<Rightarrow> js_value \<Rightarrow> js_value list" where
  "js_set row i v =
     (if i < 0 then row
      else if i < int (length row) then row[nat i := v]
      else row @ replicate (nat i - length row) JUndefined @ [v])"

text \<open>\<^verbatim>\<open>row.splice(i, 1)\<close>: a negative index counts from the end.\<close>

definition js_splice1 :: "js_value list \<Rightarrow> int \<Rightarrow> js_value list" where
  "js_splice1 row i =
     (let start = (if i < 0 then max (int (length row) + i) 0 else min i (int (length row)))
      in take (nat start) row @ drop (Suc (nat start)) row)"

text \<open>\<^verbatim>\<open>headers.indexOf(x)\<close> with strict equality; \<open>- 1\<close> when absent.\<close>

fun indexOf_from :: "int \<Rightarrow> js_value list \<Rightarrow> js_value \<Rightarrow> int" where
  "indexOf_from i [] x = - 1"
| "indexOf_from i (y # ys) x = (if y = x then i else indexOf_from (i + 1) ys x)"

definition indexOf :: "js_value list \<Rightarrow> js_value \<Rightarrow> int" where
  "indexOf xs x = indexOf_from 0 xs x"

definition is_digit :: "char \<Rightarrow> bool" where
  "is_digit c = (48 \<le> (of_char c :: nat) \<and> (of_char c :: nat) \<le> 57)"

definition digits_value :: "string \<Rightarrow> nat" where
  "digits_value k = foldl (\<lambda>n c. 10 * n + (of_char c - 48)) 0 k"

text \<open>
  An array index is the canonical decimal string of an integer below \<open>2\<^sup>3\<^sup>2 - 1\<close>.
  \<^verbatim>\<open>Object.keys\<close> and \<^verbatim>\<open>Object.entries\<close> list such keys first, in ascending numeric order,
  and then the other keys in insertion order.
\<close>

definition is_array_index :: "string \<Rightarrow> bool" where
  "is_array_index k =
     (k \<noteq> [] \<and> list_all is_digit k \<and> show_nat (digits_value k) = k \<and> digits_value k < 4294967295)"

definition Object_entries :: "(string \<times> 'a) list \<Rightarrow> (string \<times> 'a) list" where
  "Object_entries obj =
     sort_key (\<lambda>e. digits_value (fst e)) (filter (\<lambda>e. is_array_index (fst e)) obj)
     @ filter (\<lambda>e. \<not> is_array_index (fst e)) obj"

definition Object_keys :: "(string \<times> 'a) list \<Rightarrow> string list" where
  "Object_keys obj = map fst (Object_entries obj)"

text \<open>
  A lookup \<^verbatim>\<open>obj[key]\<close> on an object literal also finds what \<^verbatim>\<open>Object.prototype\<close> provides
  under these names.
\<close>

definition Object_prototype_keys :: "string list" where
  "Object_prototype_keys =
     [''constructor'', ''__defineGetter__'', ''__defineSetter__'', ''hasOwnProperty'',
      ''__lookupGetter__'', ''__lookupSetter__'', ''isPrototypeOf'', ''propertyIsEnumerable'',
      ''toString'', ''valueOf'', ''__proto__'', ''toLocaleString'']"

subsection \<open>The host's built-in functions\<close>

text \<open>
  The conversions and string functions of the JavaScript engine that the transformations
  call are parameters of the model. \<open>h_Number s\<close> is \<^verbatim>\<open>Number(s)\<close> for a string, \<open>None\<close> when
  it is \<^verbatim>\<open>NaN\<close>; \<open>h_dateISO v\<close> is \<^verbatim>\<open>new Date(v).toISOString().split("T")[0]\<close>, \<open>None\<close> when
  the date is invalid; \<open>h_replaceWords f s\<close> is \<^verbatim>\<open>s.replace(/\w\S*/g, f)\<close>; \<open>h_collapseSpace s\<close>
  is \<^verbatim>\<open>s.replace(/\s+/g, " ")\<close>; \<open>h_RegExp src\<close> says whether \<^verbatim>\<open>new RegExp(src)\<close> returns
  (it throws a \<^verbatim>\<open>SyntaxError\<close> otherwise), \<open>h_test src s\<close> is \<^verbatim>\<open>new RegExp(src).test(s)\<close> and
  \<open>h_split src s\<close> is \<^verbatim>\<open>s.split(new RegExp(src))\<close>.
\<close>

record host =
  h_Number :: "string \<Rightarrow> rat option"
  h_dateISO :: "js_value \<Rightarrow> string option"
  h_toLowerCase :: "string \<Rightarrow> string"
  h_toUpperCase :: "string \<Rightarrow> string"
  h_trim :: "string \<Rightarrow> string"
  h_replaceWords :: "(string \<Rightarrow> string) \<Rightarrow> string \<Rightarrow> string"
  h_collapseSpace :: "string \<Rightarrow> string"
  h_RegExp :: "string \<Rightarrow> bool"
  h_test :: "string \<Rightarrow> string \<Rightarrow> bool"
  h_split :: "string \<Rightarrow> string \<Rightarrow> string list"

fun js_Number :: "host \<Rightarrow> js_value \<Rightarrow> rat option" where
  "js_Number h JNull = Some 0"
| "js_Number h JUndefined = None"
| "js_Number h (JString s) = h_Number h s"
| "js_Number h (JNumber q) = Some q"
| "js_Number h (JBoolean b) = Some (if b then 1 else 0)"

fun is_string :: "js_value \<Rightarrow> bool" where
  "is_string (JString s) = True"
| "is_string v = False"

text \<open>\<^verbatim>\<open>cell === null || cell === undefined || cell === ""\<close>\<close>

definition is_empty_cell :: "js_value \<Rightarrow> bool" where
  "is_empty_cell v = (v = JNull \<or> v = JUndefined \<or> v = JString [])"

subsection \<open>JSON.stringify of a row\<close>

definition hex_digit :: "nat \<Rightarrow> char" where
  "hex_digit n = (if n < 10 then char_of (48 + n) else char_of (87 + n))"

definition json_char :: "char \<Rightarrow> string" where
  "json_char c =
     (let n = (of_char c :: nat) in
      if n = 34 then [char_of (92 :: nat), char_of (34 :: nat)]
      else if n = 92 then [char_of (92 :: nat), char_of (92 :: nat)]
      else if n = 8 then [char_of (92 :: nat), CHR ''b'']
      else if n = 12 then [char_of (92 :: nat), CHR ''f'']
      else if n = 10 then [char_of (92 :: nat), CHR ''n'']
      else if n = 13 then [char_of (92 :: nat), CHR ''r'']
      else if n = 9 then [char_of (92 :: nat), CHR ''t'']
      else if n < 32 then [char_of (92 :: nat), CHR ''u'', CHR ''0'', CHR ''0'',
                           hex_digit (n div 16), hex_digit (n mod 16)]
      else [c])"

fun json_value :: "js_value \<Rightarrow> string" where
  "json_value JNull = ''null''"
| "json_value JUndefined = ''null''"
| "json_value (JString s) = char_of (34 :: nat) # concat (map json_char s) @ [char_of (34 :: nat)]"
| "json_value (JNumber q) = show_number q"
| "json_value (JBoolean b) = (if b then ''true'' else ''false'')"

fun join :: "string \<Rightarrow> string list \<Rightarrow> string" where
  "join sep [] = []"
| "join sep [x] = x"
| "join sep (x # y # ys) = x @ sep @ join sep (y # ys)"

definition JSON_stringify :: "js_value list \<Rightarrow> string" where
  "JSON_stringify row = ''['' @ join '','' (map json_value row) @ '']''"

subsection \<open>The transformations of a chunk\<close>

text \<open>
  Each private method reads \<^verbatim>\<open>this.processedData.get(chunkId)!\<close> and its first row. They are
  called by \<open>applyTransformationToChunk\<close> only, which has checked that the payload is there
  and has two rows or more; on a missing payload or an empty one the first access would
  throw a \<^verbatim>\<open>TypeError\<close>.
\<close>

definition with_payload ::
  "processor \<Rightarrow> string \<Rightarrow> (js_value list \<Rightarrow> js_value list list \<Rightarrow> js_error + processor) \<Rightarrow> js_error + processor" where
  "with_payload st cid body =
     (case map_of (processedData st) cid of
        None \<Rightarrow> Inl (TypeError ''Cannot read properties of undefined'')
      | Some [] \<Rightarrow> Inl (TypeError ''Cannot read properties of undefined'')
      | Some (hdrs # dataRows) \<Rightarrow> body hdrs dataRows)"

definition set_payload :: "processor \<Rightarrow> string \<Rightarrow> js_value list list \<Rightarrow> processor" where
  "set_payload st key chunkData = st\<lparr>processedData := AList.update key chunkData (processedData st)\<rparr>"

text \<open>
  The frequency table of the mode: an object literal filled in row order. Keys that name a
  member of \<^verbatim>\<open>Object.prototype\<close> are outside this table's model (the source would read the
  inherited member as the first count).
\<close>

definition frequency :: "string list \<Rightarrow> (string \<times> nat) list" where
  "frequency keys =
     foldl (\<lambda>fr k. AList.update k (case map_of fr k of None \<Rightarrow> 1 | Some n \<Rightarrow> n + 1) fr) [] keys"

definition freq_of :: "(string \<times> nat) list \<Rightarrow> string \<Rightarrow> nat" where
  "freq_of fr k = (case map_of fr k of None \<Rightarrow> 0 | Some n \<Rightarrow> n)"

text \<open>\<^verbatim>\<open>Object.keys(frequency).reduce((a, b) => (frequency[a] > frequency[b] ? a : b))\<close>\<close>

definition mode_key :: "string list \<Rightarrow> string" where
  "mode_key keys =
     (let fr = frequency keys; ks = Object_keys fr
      in foldl (\<lambda>a b. if freq_of fr a > freq_of fr b then a else b) (hd ks) (tl ks))"

definition fill_value :: "host \<Rightarrow> transformation \<Rightarrow> js_value list \<Rightarrow> js_value" where
  "fill_value h t columnData =
     (if t_method t = JString ''median'' \<and> columnData \<noteq> [] then
        (let numbers = sort (List.map_filter (js_Number h) columnData)
         in if numbers \<noteq> [] then JNumber (numbers ! (length numbers div 2)) else JNumber 0)
      else if t_method t = JString ''mean'' \<and> columnData \<noteq> [] then
        (let numbers = List.map_filter (js_Number h) columnData
         in if numbers \<noteq> [] then JNumber (sum_list numbers / of_nat (length numbers))
            else JNumber 0)
      else if t_method t = JString ''mode'' \<and> columnData \<noteq> [] then
        JString (mode_key (map js_String columnData))
      else t_value t)"

definition fillMissingValuesInChunk :: "host \<Rightarrow> processor \<Rightarrow> string \<Rightarrow> transformation \<Rightarrow> js_error + processor" where
  "fillMissingValuesInChunk h st cid t =
     with_payload st cid (\<lambda>hdrs dataRows.
       let columnIndex = indexOf hdrs (t_column t) in
       if columnIndex = - 1 then Inr st
       else
         let columnData = filter (\<lambda>cell. \<not> is_empty_cell cell)
                            (map (\<lambda>row. js_nth row columnIndex) dataRows);
             fillValue = fill_value h t columnData
         in Inr (set_payload st cid
                  (hdrs # map (\<lambda>row. if is_empty_cell (js_nth row columnIndex)
                                        then js_set row columnIndex fillValue else row)
                              dataRows)))"

fun unique_rows :: "string list \<Rightarrow> js_value list list \<Rightarrow> js_value list list" where
  "unique_rows seen [] = []"
| "unique_rows seen (row # rows) =
     (if JSON_stringify row \<in> set seen then unique_rows seen rows
      else row # unique_rows (JSON_stringify row # seen) rows)"

definition removeDuplicatesInChunk :: "host \<Rightarrow> processor \<Rightarrow> string \<Rightarrow> transformation \<Rightarrow> js_error + processor" where
  "removeDuplicatesInChunk h st cid t =
     with_payload st cid (\<lambda>hdrs dataRows. Inr (set_payload st cid (hdrs # unique_rows [] dataRows)))"

definition phone_format :: "string \<Rightarrow> string" where
  "phone_format cell =
     (let cleaned = filter is_digit cell in
      if length cleaned = 10
      then ''('' @ take 3 cleaned @ '') '' @ take 3 (drop 3 cleaned) @ ''-'' @ drop 6 cleaned
      else cell)"

definition standardize_cell :: "host \<Rightarrow> js_value \<Rightarrow> string \<Rightarrow> string" where
  "standardize_cell h fmt cell =
     (if fmt = JString ''lowercase'' then h_toLowerCase h cell
      else if fmt = JString ''uppercase'' then h_toUpperCase h cell
      else if fmt = JString ''title_case'' then
        h_replaceWords h (\<lambda>txt. h_toUpperCase h (take 1 txt) @ h_toLowerCase h (drop 1 txt)) cell
      else if fmt = JString ''email'' then h_trim h (h_toLowerCase h cell)
      else if fmt = JString ''phone'' then phone_format cell
      else cell)"

definition map_column :: "int \<Rightarrow> (js_value \<Rightarrow> js_value option) \<Rightarrow> js_value list list \<Rightarrow> js_value list list" where
  "map_column columnIndex f dataRows =
     map (\<lambda>row. case f (js_nth row columnIndex) of
                  None \<Rightarrow> row
                | Some v \<Rightarrow> js_set row columnIndex v) dataRows"

definition standardizeFormatInChunk :: "host \<Rightarrow> processor \<Rightarrow> string \<Rightarrow> transformation \<Rightarrow> js_error + processor" where
  "standardizeFormatInChunk h st cid t =
     with_payload st cid (\<lambda>hdrs dataRows.
       let columnIndex = indexOf hdrs (t_column t) in
       if columnIndex = - 1 then Inr st
       else Inr (set_payload st cid
              (hdrs # map_column columnIndex
                 (\<lambda>cell. case cell of
                            JString s \<Rightarrow> Some (JString (standardize_cell h (t_format t) s))
                          | _ \<Rightarrow> None)
                 dataRows)))"

definition fix_cell :: "host \<Rightarrow> js_value \<Rightarrow> js_value \<Rightarrow> js_value option" where
  "fix_cell h targetType cell =
     (if is_empty_cell cell then None
      else if targetType = JString ''number'' then map_option JNumber (js_Number h cell)
      else if targetType = JString ''date'' then map_option JString (h_dateISO h cell)
      else if targetType = JString ''string'' then Some (JString (js_String cell))
      else None)"

definition fixDataTypesInChunk :: "host \<Rightarrow> processor \<Rightarrow> string \<Rightarrow> transformation \<Rightarrow> js_error + processor" where
  "fixDataTypesInChunk h st cid t =
     with_payload st cid (\<lambda>hdrs dataRows.
       let columnIndex = indexOf hdrs (t_column t) in
       if columnIndex = - 1 then Inr st
       else Inr (set_payload st cid
              (hdrs # map_column columnIndex (fix_cell h (t_targetType t)) dataRows)))"

definition trimWhitespaceInChunk :: "host \<Rightarrow> processor \<Rightarrow> string \<Rightarrow> transformation \<Rightarrow> js_error + processor" where
  "trimWhitespaceInChunk h st cid t =
     with_payload st cid (\<lambda>hdrs dataRows.
       let columnIndex = indexOf hdrs (t_column t) in
       if columnIndex = - 1 then Inr st
       else Inr (set_payload st cid
              (hdrs # map_column columnIndex
                 (\<lambda>cell. case cell of
                            JString s \<Rightarrow> Some (JString (h_collapseSpace h (h_trim h s)))
                          | _ \<Rightarrow> None)
                 dataRows)))"

text \<open>
  \<^verbatim>\<open>columnIndices.forEach((idx, i) => ...)\<close> on the copy of a row: the first index receives the
  reference id, every later one is spliced out (at its index in the original header).
\<close>

fun main_row :: "string \<Rightarrow> bool \<Rightarrow> int list \<Rightarrow> js_value list \<Rightarrow> js_value list" where
  "main_row rid first [] row = row"
| "main_row rid first (idx # idxs) row =
     main_row rid False idxs (if first then js_set row idx (JString rid) else js_splice1 row idx)"

definition template_opt :: "string option \<Rightarrow> string" where
  "template_opt x = (case x of None \<Rightarrow> ''undefined'' | Some s \<Rightarrow> s)"

definition normalizeDataInChunk :: "host \<Rightarrow> processor \<Rightarrow> string \<Rightarrow> transformation \<Rightarrow> js_error + processor" where
  "normalizeDataInChunk h st cid t =
     with_payload st cid (\<lambda>hdrs dataRows.
       case t_columns t of
         None \<Rightarrow> Inl (TypeError ''Cannot read properties of undefined'')
       | Some columns \<Rightarrow>
           let columnIndices = map (\<lambda>col. indexOf hdrs (JString col)) columns;
               rowIds = map (\<lambda>rowIndex. cid @ ''_'' @ show_nat (rowIndex + 1)) [0..<length dataRows];
               normalizedData = map (\<lambda>(rid, row). JString rid # map (js_nth row) columnIndices)
                                    (zip rowIds dataRows);
               mainTableData = map (\<lambda>(rid, row). main_row rid True columnIndices row)
                                   (zip rowIds dataRows);
               st1 = set_payload st cid (hdrs # mainTableData)
           in Inr (set_payload st1 (cid @ ''_normalized_'' @ template_opt (t_newTableName t))
                     ((JString ''ID'' # map JString columns) # normalizedData)))"

definition expand_row :: "host \<Rightarrow> string \<Rightarrow> int \<Rightarrow> js_value list \<Rightarrow> js_value list list" where
  "expand_row h src columnIndex row =
     (case js_nth row columnIndex of
        JString s \<Rightarrow>
          if h_test h src s
          then map (\<lambda>v. js_set row columnIndex (JString v))
                   (filter (\<lambda>v. v \<noteq> []) (map (h_trim h) (h_split h src s)))
          else [row]
      | _ \<Rightarrow> [row])"

text \<open>
  \<^verbatim>\<open>dataRows\<close> is taken once, before the loop over the columns: every column expands the rows
  the chunk had on entry and stores the result over the previous column's.
\<close>

definition splitMultiValueInChunk :: "host \<Rightarrow> processor \<Rightarrow> string \<Rightarrow> transformation \<Rightarrow> js_error + processor" where
  "splitMultiValueInChunk h st cid t =
     with_payload st cid (\<lambda>hdrs dataRows.
       let src = (case t_delimiter t of None \<Rightarrow> ''[,;|]'' | Some d \<Rightarrow> if d = [] then ''[,;|]'' else d) in
       if \<not> h_RegExp h src then Inl (SyntaxError ''Invalid regular expression'')
       else case t_columns t of
         None \<Rightarrow> Inl (TypeError ''Cannot read properties of undefined'')
       | Some columns \<Rightarrow>
           Inr (foldl (\<lambda>s column.
                         let columnIndex = indexOf hdrs (JString column) in
                         if columnIndex = - 1 then s
                         else set_payload s cid
                                (hdrs # concat (map (expand_row h src columnIndex) dataRows)))
                      st columns))"

subsection \<open>applyTransformationToChunk\<close>

definition dispatch :: "host \<Rightarrow> processor \<Rightarrow> string \<Rightarrow> transformation \<Rightarrow> js_error + processor" where
  "dispatch h st cid t =
     (if t_type t = JString ''fill_missing'' then fillMissingValuesInChunk h st cid t
      else if t_type t = JString ''remove_duplicates'' then removeDuplicatesInChunk h st cid t
      else if t_type t = JString ''standardize_format'' then standardizeFormatInChunk h st cid t
      else if t_type t = JString ''fix_data_types'' then fixDataTypesInChunk h st cid t
      else if t_type t = JString ''trim_whitespace'' then trimWhitespaceInChunk h st cid t
      else if t_type t = JString ''normalize_data'' then normalizeDataInChunk h st cid t
      else if t_type t = JString ''split_multi_value'' then splitMultiValueInChunk h st cid t
      else Inr st)"

text \<open>
  \<open>now\<close> is the reading of the clock, \<^verbatim>\<open>new Date().toISOString()\<close>. A transformation that
  throws has stored nothing yet, so the state it leaves is the state it found.
\<close>

definition applyTransformationToChunk :: "host \<Rightarrow> string \<Rightarrow> processor \<Rightarrow> string \<Rightarrow> transformation \<Rightarrow> unit result" where
  "applyTransformationToChunk h now st cid t =
     (case map_of (processedData st) cid of
        None \<Rightarrow> (Inr (), st)
      | Some chunkData \<Rightarrow>
          if length chunkData < 2 then (Inr (), st)
          else (case dispatch h st cid t of
                  Inl e \<Rightarrow> (Inl e, st)
                | Inr st' \<Rightarrow>
                    (Inr (),
                     st'\<lparr>transformationLog := transformationLog st' @
                           [\<lparr>timestamp = now, log_chunkId = cid, log_transformation = t,
                             status = ''completed''\<rparr>]\<rparr>)))"

subsection \<open>generateCleanedExcelFromChunks\<close>

fun is_prefix :: "string \<Rightarrow> string \<Rightarrow> bool" where
  "is_prefix [] s = True"
| "is_prefix (p # ps) [] = False"
| "is_prefix (p # ps) (c # cs) = (p = c \<and> is_prefix ps cs)"

text \<open>The text after the first occurrence of \<open>sep\<close>, if there is one.\<close>

fun after_first :: "string \<Rightarrow> string \<Rightarrow> string option" where
  "after_first sep [] = (if sep = [] then Some [] else None)"
| "after_first sep (c # cs) =
     (if is_prefix sep (c # cs) then Some (drop (length sep) (c # cs)) else after_first sep cs)"

fun before_first :: "string \<Rightarrow> string \<Rightarrow> string" where
  "before_first sep [] = []"
| "before_first sep (c # cs) = (if is_prefix sep (c # cs) then [] else c # before_first sep cs)"

text \<open>
  The loop over \<^verbatim>\<open>this.chunks.entries()\<close>. \<open>sheetData\<close> is an object literal: under a name that
  \<^verbatim>\<open>Object.prototype\<close> provides, \<^verbatim>\<open>sheetData[sheetName]\<close> is truthy and has no \<^verbatim>\<open>push\<close>.
\<close>

fun collect ::
  "(string \<times> js_value list list) list \<Rightarrow> (string \<times> ChunkMetadata) list \<Rightarrow>
   (string \<times> js_value list list) list \<Rightarrow> js_error + (string \<times> js_value list list) list"
where
  "collect pd [] sheetData = Inr sheetData"
| "collect pd ((cid, m) # rest) sheetData =
     (if \<not> processed m then collect pd rest sheetData
      else case map_of pd cid of
             None \<Rightarrow> collect pd rest sheetData
           | Some chunkData \<Rightarrow>
               if sheetName m \<in> set Object_prototype_keys
               then Inl (TypeError ''sheetData[sheetName].push is not a function'')
               else collect pd rest
                      (case map_of sheetData (sheetName m) of
                         None \<Rightarrow> sheetData @ [(sheetName m, map JString (headers m) # drop 1 chunkData)]
                       | Some rows \<Rightarrow>
                           AList.update (sheetName m) (rows @ drop 1 chunkData) sheetData))"

definition normalized_tables :: "(string \<times> js_value list list) list \<Rightarrow> (string \<times> js_value list list) list" where
  "normalized_tables pd =
     List.map_filter (\<lambda>(dataKey, d).
        case after_first ''_normalized_'' dataKey of
          None \<Rightarrow> None
        | Some r \<Rightarrow> Some (before_first ''_normalized_'' r, d)) pd"

text \<open>
  The result is the list of sheets appended to the new workbook, each with the array of rows
  given to \<^verbatim>\<open>XLSX.utils.aoa_to_sheet\<close>, in the order of the calls of
  \<^verbatim>\<open>XLSX.utils.book_append_sheet\<close>. The library's own checks of sheet names, the encoding of
  the container and the storing of the file are not modelled.
\<close>

definition generateCleanedExcelFromChunks :: "processor \<Rightarrow> js_error + (string \<times> js_value list list) list" where
  "generateCleanedExcelFromChunks st =
     (case workbook st of
        None \<Rightarrow> Inl (Error ''No workbook loaded'')
      | Some wb \<Rightarrow>
          (case collect (processedData st) (chunks st) [] of
             Inl e \<Rightarrow> Inl e
           | Inr sheetData \<Rightarrow> Inr (Object_entries sheetData @ normalized_tables (processedData st))))"

section \<open>The callers: routing, sequential application, aggregation\<close>

subsection \<open>Routing a recommendation to chunks\<close>

text \<open>
  \<open>determineAffectedChunks\<close> of the recommendation client reads two fields of the
  recommendation it was given.
\<close>

record recommendation =
  targetSheet :: js_value
  targetColumn :: js_value

definition determineAffectedChunks :: "recommendation \<Rightarrow> ChunkMetadata list \<Rightarrow> string list" where
  "determineAffectedChunks r cs =
     (if truthy (targetSheet r) then
        map chunkId (filter (\<lambda>chunk. JString (sheetName chunk) = targetSheet r) cs)
      else if truthy (targetColumn r) then
        map chunkId (filter (\<lambda>chunk. targetColumn r \<in> set (map JString (headers chunk))) cs)
      else map chunkId cs)"

text \<open>The selection \<^verbatim>\<open>chunksToProcess\<close> of the route that applies a recommendation.\<close>

definition chunksToProcess :: "processor \<Rightarrow> string list \<Rightarrow> js_value \<Rightarrow> ChunkMetadata list" where
  "chunksToProcess st affectedChunks tSheet =
     (if affectedChunks \<noteq> [] then
        filter (\<lambda>chunk. chunkId chunk \<in> set affectedChunks) (getAllChunks st)
      else filter (\<lambda>chunk. JString (sheetName chunk) = tSheet) (getAllChunks st))"

text \<open>
  The route's sequential branch: for every chunk, \<open>processChunk\<close> and then
  \<open>applyTransformationToChunk\<close>; the first error ends the loop. \<open>nows\<close> are the readings of
  the clock, one for each chunk.
\<close>

fun apply_sequentially ::
  "host \<Rightarrow> processor \<Rightarrow> (string \<times> ChunkMetadata) list \<Rightarrow> transformation \<Rightarrow> unit result" where
  "apply_sequentially h st [] t = (Inr (), st)"
| "apply_sequentially h st ((now, chunk) # rest) t =
     (case processChunk st (chunkId chunk) of
        (Inl e, st1) \<Rightarrow> (Inl e, st1)
      | (Inr _, st1) \<Rightarrow>
          (case applyTransformationToChunk h now st1 (chunkId chunk) t of
             (Inl e, st2) \<Rightarrow> (Inl e, st2)
           | (Inr _, st2) \<Rightarrow> apply_sequentially h st2 rest t))"

subsection \<open>Aggregating issues across chunks\<close>

datatype severity = High | Medium | Low


record DataQualityIssue =
  i_type :: string
  i_severity :: severity
  i_column :: "string option"
  i_sheet :: "string option"
  i_count :: int
  i_description :: string
  i_examples :: "string list option"





section \<open>Notions used to state the properties\<close>

text \<open>
  The data rows of a sheet are the rows \<open>1..R\<close> below the header row \<open>0\<close>, where \<open>R\<close> is the
  last row of the used range.
\<close>

definition data_rows :: "worksheet \<Rightarrow> int" where
  "data_rows ws = fst (range_e ws)"

text \<open>
  A workbook as the library returns it: the sheet names are distinct and each has its
  worksheet object.
\<close>

definition well_formed :: "workbook \<Rightarrow> bool" where
  "well_formed wb = (distinct (SheetNames wb) \<and> list_all (\<lambda>n. Sheets wb n \<noteq> None) (SheetNames wb))"

definition num_chunks :: "worksheet \<Rightarrow> int \<Rightarrow> int" where
  "num_chunks ws csize = \<lceil>rat_of_int (data_rows ws) / rat_of_int csize\<rceil>"

definition sheet_chunks :: "string \<Rightarrow> int \<Rightarrow> string \<Rightarrow> worksheet \<Rightarrow> ChunkMetadata list" where
  "sheet_chunks sid csize name ws =
     map (mk_chunk sid csize name (sheet_headers ws) (data_rows ws + 1)) [0..num_chunks ws csize - 1]"

definition book_chunks :: "workbook \<Rightarrow> string \<Rightarrow> int \<Rightarrow> string list \<Rightarrow> ChunkMetadata list" where
  "book_chunks wb sid csize names =
     concat (map (\<lambda>n. case Sheets wb n of None \<Rightarrow> [] | Some ws \<Rightarrow> sheet_chunks sid csize n ws) names)"

definition set_all :: "(string \<times> ChunkMetadata) list \<Rightarrow> ChunkMetadata list \<Rightarrow> (string \<times> ChunkMetadata) list" where
  "set_all m cs = foldl (\<lambda>m c. AList.update (chunkId c) c m) m cs"

subsection \<open>Worksheets for the examples\<close>

text \<open>
  The worksheet whose cell objects are the entries of a grid (\<open>None\<close>: no cell object); its
  range ends at the last row and the widest row's last column.
\<close>

definition grid_sheet :: "js_value option list list \<Rightarrow> worksheet" where
  "grid_sheet g =
     \<lparr>ws_ref = (if g = [] then None
                else Some (length g - 1, foldr max (map length g) 0 - 1)),
      ws_cells = (\<lambda>r c. if 0 \<le> r \<and> r < int (length g) \<and> 0 \<le> c \<and> c < int (length (g ! nat r))
                         then g ! nat r ! nat c else None)\<rparr>"

definition book :: "(string \<times> worksheet) list \<Rightarrow> workbook" where
  "book sheets = \<lparr>SheetNames = map fst sheets, Sheets = map_of sheets\<rparr>"

definition names_grid :: "js_value option list list" where
  "names_grid =
     [[Some (JString ''Name'')],
      [Some (JString ''ann'')], [Some (JString ''bob'')], [Some (JString ''cy'')],
      [Some (JString ''dee'')], [Some (JString ''eve'')]]"

definition names_processor :: "processor" where
  "names_processor = new_processor (Inr (book [(''Data'', grid_sheet names_grid)])) 0 ''s'' 2"



definition email_sheet :: "worksheet" where
  "email_sheet =
     \<lparr>ws_ref = Some (2500, 0),
      ws_cells = (\<lambda>r c. if c = 0 \<and> 0 \<le> r \<and> r \<le> 2500
                         then Some (JString (if r = 0 then ''Email'' else ''Ann@Example.org''))
                         else None)\<rparr>"

definition email_processor :: "processor" where
  "email_processor = new_processor (Inr (book [(''Contacts'', email_sheet)])) 0 ''s'' 1000"

text \<open>The chunks a call of \<open>parseExcelInChunks\<close> returned (none when it threw or did not return).\<close>

definition parsed_chunks :: "(metadata \<times> ChunkMetadata list) result option \<Rightarrow> ChunkMetadata list" where
  "parsed_chunks r = (case r of Some (Inr (md, cs), st) \<Rightarrow> cs | _ \<Rightarrow> [])"

subsection \<open>A host for the examples\<close>

text \<open>
  The properties below are proved for every host. To run examples a host is needed; this one
  handles ASCII text: blanks are the six ASCII white-space characters, letters are the ASCII
  letters, a numeric string is a run of decimal digits, no value is a valid date, and the only
  patterns it constructs are bracketed classes of plain characters such as \<^verbatim>\<open>[,;|]\<close>.
\<close>

definition is_blank :: "char \<Rightarrow> bool" where
  "is_blank c = ((of_char c :: nat) \<in> {9, 10, 11, 12, 13, 32})"

definition ascii_trim :: "string \<Rightarrow> string" where
  "ascii_trim s = rev (dropWhile is_blank (rev (dropWhile is_blank s)))"

definition ascii_lower :: "char \<Rightarrow> char" where
  "ascii_lower c = (let n = (of_char c :: nat) in if 65 \<le> n \<and> n \<le> 90 then char_of (n + 32) else c)"

definition ascii_upper :: "char \<Rightarrow> char" where
  "ascii_upper c = (let n = (of_char c :: nat) in if 97 \<le> n \<and> n \<le> 122 then char_of (n - 32) else c)"

definition is_word_char :: "char \<Rightarrow> bool" where
  "is_word_char c =
     (let n = (of_char c :: nat)
      in (48 \<le> n \<and> n \<le> 57) \<or> (65 \<le> n \<and> n \<le> 90) \<or> (97 \<le> n \<and> n \<le> 122) \<or> n = 95)"

fun replace_words :: "(string \<Rightarrow> string) \<Rightarrow> string option \<Rightarrow> string \<Rightarrow> string" where
  "replace_words f None [] = []"
| "replace_words f (Some w) [] = f (rev w)"
| "replace_words f None (c # cs) =
     (if is_word_char c then replace_words f (Some [c]) cs else c # replace_words f None cs)"
| "replace_words f (Some w) (c # cs) =
     (if is_blank c then f (rev w) @ c # replace_words f None cs
      else replace_words f (Some (c # w)) cs)"

fun collapse_blanks :: "bool \<Rightarrow> string \<Rightarrow> string" where
  "collapse_blanks in_run [] = []"
| "collapse_blanks in_run (c # cs) =
     (if is_blank c then (if in_run then collapse_blanks True cs else CHR '' '' # collapse_blanks True cs)
      else c # collapse_blanks False cs)"

fun split_where :: "(char \<Rightarrow> bool) \<Rightarrow> string \<Rightarrow> string \<Rightarrow> string list" where
  "split_where P cur [] = [rev cur]"
| "split_where P cur (c # cs) =
     (if P c then rev cur # split_where P [] cs else split_where P (c # cur) cs)"

definition class_chars :: "string \<Rightarrow> string option" where
  "class_chars src =
     (if 2 \<le> length src \<and> hd src = CHR ''['' \<and> last src = CHR '']''
         \<and> list_all (\<lambda>c. c \<notin> set ''[]^-'' \<and> c \<noteq> char_of (92 :: nat)) (butlast (tl src))
      then Some (butlast (tl src)) else None)"

definition ascii_host :: "host" where
  "ascii_host =
     \<lparr>h_Number = (\<lambda>s. if s \<noteq> [] \<and> list_all is_digit s then Some (of_nat (digits_value s)) else None),
      h_dateISO = (\<lambda>v. None),
      h_toLowerCase = map ascii_lower,
      h_toUpperCase = map ascii_upper,
      h_trim = ascii_trim,
      h_replaceWords = (\<lambda>f. replace_words f None),
      h_collapseSpace = collapse_blanks False,
      h_RegExp = (\<lambda>src. class_chars src \<noteq> None),
      h_test = (\<lambda>src s. case class_chars src of None \<Rightarrow> False | Some cl \<Rightarrow> list_ex (\<lambda>c. c \<in> set cl) s),
      h_split = (\<lambda>src s. case class_chars src of None \<Rightarrow> [s] | Some cl \<Rightarrow> split_where (\<lambda>c. c \<in> set cl) [] s)\<rparr>"

subsection \<open>Processors for the examples\<close>

text \<open>
  \<open>parsed p\<close> is the processor after \<open>parseExcelInChunks\<close>, \<open>materialized st ids\<close> the processor
  after \<open>processChunk\<close> on each of \<open>ids\<close> in turn, \<open>applied h now st cid t\<close> the processor after
  \<open>applyTransformationToChunk\<close>.
\<close>

definition parsed :: "processor \<Rightarrow> processor" where
  "parsed p = (case parseExcelInChunks p of None \<Rightarrow> p | Some (r, st) \<Rightarrow> st)"

definition materialized :: "processor \<Rightarrow> string list \<Rightarrow> processor" where
  "materialized st ids = foldl (\<lambda>s cid. snd (processChunk s cid)) st ids"

definition applied :: "host \<Rightarrow> string \<Rightarrow> processor \<Rightarrow> string \<Rightarrow> transformation \<Rightarrow> processor" where
  "applied h now st cid t = snd (applyTransformationToChunk h now st cid t)"

definition payload :: "processor \<Rightarrow> string \<Rightarrow> js_value list list option" where
  "payload st cid = map_of (processedData st) cid"

definition descriptor :: "string \<Rightarrow> transformation" where
  "descriptor ty =
     \<lparr>t_type = JString ty, t_sheet = JUndefined, t_column = JUndefined, t_method = JUndefined,
      t_value = JUndefined, t_format = JUndefined, t_targetType = JUndefined,
      t_columns = None, t_newTableName = None, t_delimiter = None\<rparr>"

definition people_grid :: "js_value option list list" where
  "people_grid =
     [[Some (JString ''Name''), Some (JString ''City'')],
      [Some (JString ''ann''), Some (JString ''Paris'')],
      [Some (JString ''bob''), Some (JString ''Rome'')],
      [Some (JString ''cy''), None]]"

definition people_loaded :: "processor" where
  "people_loaded =
     materialized (parsed (new_processor (Inr (book [(''People'', grid_sheet people_grid)])) 0 ''s'' 10))
       [''s_People_chunk_0'']"

definition tags_loaded :: "processor" where
  "tags_loaded =
     materialized
       (parsed (new_processor
          (Inr (book [(''T'', grid_sheet [[Some (JString ''Tags'')], [Some (JString '','')]])])) 0 ''s'' 10))
       [''s_T_chunk_0'']"

definition twins_processor :: "processor" where
  "twins_processor =
     new_processor (Inr (book [(''Data'', grid_sheet [[Some (JString ''Name'')], [Some (JString ''ann'')],
                                                      [Some (JString ''ann'')]])])) 0 ''s'' 1"

text \<open>The type strings that \<open>applyTransformationToChunk\<close> recognises.\<close>

definition recognized_types :: "js_value list" where
  "recognized_types =
     map JString [''fill_missing'', ''remove_duplicates'', ''standardize_format'', ''fix_data_types'',
                  ''trim_whitespace'', ''normalize_data'', ''split_multi_value'']"

definition completed :: "string \<Rightarrow> string \<Rightarrow> transformation \<Rightarrow> log_entry" where
  "completed now cid t =
     \<lparr>timestamp = now, log_chunkId = cid, log_transformation = t, status = ''completed''\<rparr>"

text \<open>The transformations that return at once when the chunk's header has no such column.\<close>

definition column_scoped_types :: "js_value list" where
  "column_scoped_types =
     map JString [''fill_missing'', ''standardize_format'', ''fix_data_types'', ''trim_whitespace'']"

definition is_processed :: "processor \<Rightarrow> string \<Rightarrow> bool" where
  "is_processed st cid = (case map_of (chunks st) cid of None \<Rightarrow> False | Some m \<Rightarrow> processed m)"

text \<open>
  The values among \<open>ks\<close> that occur most often in \<open>keys\<close>, in the order of \<open>ks\<close>.
\<close>

definition most_frequent :: "string list \<Rightarrow> string list \<Rightarrow> string list" where
  "most_frequent keys ks = filter (\<lambda>k. count_list keys k = Max (count_list keys ` set keys)) ks"

text \<open>The distinct values of a list in the order of their first occurrence.\<close>

definition first_seen :: "string list \<Rightarrow> string list" where
  "first_seen keys = rev (remdups (rev keys))"

definition mode_descriptor :: "string \<Rightarrow> transformation" where
  "mode_descriptor col = (descriptor ''fill_missing'')\<lparr>t_column := JString col, t_method := JString ''mode''\<rparr>"

text \<open>The examples of an issue, none when the field is missing.\<close>

definition examples_of :: "DataQualityIssue \<Rightarrow> string list" where
  "examples_of issue = (case i_examples issue of None \<Rightarrow> [] | Some ex \<Rightarrow> ex)"



subsection \<open>analyzeChunkQuality\<close>

fun typeof :: "js_value \<Rightarrow> string" where
  "typeof JNull = ''object''"
| "typeof JUndefined = ''undefined''"
| "typeof (JString s) = ''string''"
| "typeof (JNumber q) = ''number''"
| "typeof (JBoolean b) = ''boolean''"

fun has_double_space :: "string \<Rightarrow> bool" where
  "has_double_space (a # b # cs) = ((a = CHR '' '' \<and> b = CHR '' '') \<or> has_double_space (b # cs))"
| "has_double_space cs = False"

text \<open>\<^verbatim>\<open>/[,;|]/.test(s)\<close>; a string with such a character splits into two parts or more.\<close>

definition has_delimiter :: "string \<Rightarrow> bool" where
  "has_delimiter s = list_ex (\<lambda>c. c \<in> set '',;|'') s"

definition quoted :: "string \<Rightarrow> string" where
  "quoted s = CHR 0x27 # s @ [CHR 0x27]"

text \<open>
  The issues of one column. The thresholds \<^verbatim>\<open>dataRows.length * 0.3\<close> and \<^verbatim>\<open>* 0.1\<close> are taken
  as exact fractions.
\<close>

definition column_issues ::
  "host \<Rightarrow> string \<Rightarrow> string \<Rightarrow> js_value list list \<Rightarrow> nat \<Rightarrow> js_value \<Rightarrow> DataQualityIssue list" where
  "column_issues h cid sheet dataRows colIndex hdr =
     (let columnName = (if truthy hdr then js_String hdr else ''Column_'' @ show_nat (colIndex + 1));
          columnData = map (\<lambda>row. js_nth row (int colIndex)) dataRows;
          missingCount = length (filter (\<lambda>cell. is_empty_cell cell \<or>
                              (case cell of JString s \<Rightarrow> h_trim h s = [] | _ \<Rightarrow> False)) columnData);
          nonEmptyData = filter (\<lambda>cell. \<not> is_empty_cell cell) columnData;
          types = first_seen (map typeof nonEmptyData);
          stringData = List.map_filter (\<lambda>cell. case cell of JString s \<Rightarrow> if s \<noteq> [] then Some s else None
                                               | _ \<Rightarrow> None) columnData;
          whitespaceIssues = filter (\<lambda>s. s \<noteq> h_trim h s \<or> has_double_space s) stringData;
          multiValue = List.map_filter (\<lambda>cell. case cell of JString s \<Rightarrow> if has_delimiter s then Some s else None
                                               | _ \<Rightarrow> None) columnData
      in (if 0 < missingCount then
            [\<lparr>i_type = ''missing_values'',
              i_severity = (if rat_of_nat missingCount > rat_of_nat (length dataRows) * (3 / 10) then High
                            else if rat_of_nat missingCount > rat_of_nat (length dataRows) * (1 / 10) then Medium
                            else Low),
              i_column = Some columnName, i_sheet = Some sheet, i_count = int missingCount,
              i_description = show_nat missingCount @ '' missing values found in column '' @ quoted columnName
                              @ '' (chunk '' @ cid @ '')'',
              i_examples = Some (map js_String (take 3 nonEmptyData))\<rparr>]
          else [])
         @ (if 1 < length types then
              [\<lparr>i_type = ''data_type_mismatch'', i_severity = Medium,
                i_column = Some columnName, i_sheet = Some sheet, i_count = int (length nonEmptyData),
                i_description = ''Mixed data types found in column '' @ quoted columnName
                                @ '' (chunk '' @ cid @ ''): '' @ join '', '' types,
                i_examples = Some (map js_String (take 3 nonEmptyData))\<rparr>]
            else [])
         @ (if whitespaceIssues \<noteq> [] then
              [\<lparr>i_type = ''whitespace'', i_severity = Low,
                i_column = Some columnName, i_sheet = Some sheet, i_count = int (length whitespaceIssues),
                i_description = show_nat (length whitespaceIssues) @ '' cells with whitespace issues in column ''
                                @ quoted columnName @ '' (chunk '' @ cid @ '')'',
                i_examples = Some (take 3 whitespaceIssues)\<rparr>]
            else [])
         @ (if multiValue \<noteq> [] then
              [\<lparr>i_type = ''inconsistent_format'', i_severity = Medium,
                i_column = Some columnName, i_sheet = Some sheet, i_count = int (length multiValue),
                i_description = show_nat (length multiValue) @ '' cells contain multiple values in ''
                                @ quoted columnName @ '' (chunk '' @ cid @ '') - should be normalized'',
                i_examples = Some (take 3 multiValue)\<rparr>]
            else []))"

definition duplicate_issues :: "string \<Rightarrow> string \<Rightarrow> js_value list list \<Rightarrow> DataQualityIssue list" where
  "duplicate_issues cid sheet dataRows =
     (let rowStrings = map JSON_stringify dataRows;
          duplicateCount = length rowStrings - length (remdups rowStrings)
      in if 0 < duplicateCount then
           [\<lparr>i_type = ''duplicates'',
             i_severity = (if rat_of_nat duplicateCount > rat_of_nat (length dataRows) * (1 / 10) then High
                           else Medium),
             i_column = None, i_sheet = Some sheet, i_count = int duplicateCount,
             i_description = show_nat duplicateCount @ '' duplicate rows found in chunk '' @ cid,
             i_examples = None\<rparr>]
         else [])"

text \<open>
  A payload stored under a key that is no chunk id has no metadata: reading its sheet name
  for the first issue throws.
\<close>

definition analyzeChunkQuality :: "host \<Rightarrow> processor \<Rightarrow> string \<Rightarrow> js_error + DataQualityIssue list" where
  "analyzeChunkQuality h st cid =
     (case map_of (processedData st) cid of
        None \<Rightarrow> Inr []
      | Some chunkData \<Rightarrow>
          if length chunkData < 2 then Inr []
          else
            (let hdrs = hd chunkData; dataRows = tl chunkData;
                 sheet = (case map_of (chunks st) cid of None \<Rightarrow> [] | Some m \<Rightarrow> sheetName m);
                 issues = concat (map (\<lambda>(colIndex, hdr). column_issues h cid sheet dataRows colIndex hdr)
                                      (zip [0..<length hdrs] hdrs))
                          @ duplicate_issues cid sheet dataRows
             in if map_of (chunks st) cid = None \<and> issues \<noteq> []
                then Inl (TypeError ''Cannot read properties of undefined'')
                else Inr issues))"









section \<open>Partitioning\<close>

lemma set_all_append: "set_all m (xs @ ys) = set_all (set_all m xs) ys"
  by (simp add: set_all_def)


lemma chunkLoop_finite:
  "i \<le> n \<Longrightarrow> chunkLoop sid csize name hdrs sr (Finite n) i acc =
     Some (fst acc @ map (mk_chunk sid csize name hdrs sr) [i..n - 1],
           set_all (snd acc) (map (mk_chunk sid csize name hdrs sr) [i..n - 1]))"
proof (induction "nat (n - i)" arbitrary: i acc)
  case 0
  then have "i = n" by simp
  then show ?case by (subst chunkLoop.simps) (simp add: set_all_def)
next
  case (Suc k)
  then have lt: "i < n" by linarith
  have k: "k = nat (n - (i + 1))" using Suc.hyps(2) by linarith
  have up: "[i..n - 1] = i # [i + 1..n - 1]" using lt by (simp add: upto_rec1)
  show ?case
    apply (subst chunkLoop.simps)
    using lt Suc.hyps(1)[OF k, of "(fst acc @ [mk_chunk sid csize name hdrs sr i], AList.update (chunkId (mk_chunk sid csize name hdrs sr i)) (mk_chunk sid csize name hdrs sr i) (snd acc))"]
    by (simp add: up Let_def set_all_def)
qed

lemma chunkLoop_from_zero:
  "chunkLoop sid csize name hdrs sr (Finite n) 0 acc =
     Some (fst acc @ map (mk_chunk sid csize name hdrs sr) [0..n - 1],
           set_all (snd acc) (map (mk_chunk sid csize name hdrs sr) [0..n - 1]))"
proof (cases "0 \<le> n")
  case True
  then show ?thesis by (rule chunkLoop_finite)
next
  case False
  then show ?thesis by (subst chunkLoop.simps) (simp add: set_all_def)
qed

lemma sheetLoop_ok:
  assumes "csize \<noteq> 0" "list_all (\<lambda>n. Sheets wb n \<noteq> None) names"
  shows "\<exists>tr tc. sheetLoop wb sid csize names acc =
     Some (None, \<lparr>acc_chunks = acc_chunks acc @ book_chunks wb sid csize names,
                  acc_map = set_all (acc_map acc) (book_chunks wb sid csize names),
                  acc_totalRows = tr, acc_totalColumns = tc\<rparr>)"
  using assms(2)
proof (induction names arbitrary: acc)
  case Nil
  then show ?case by (cases acc) (simp add: book_chunks_def set_all_def)
next
  case (Cons n names)
  then obtain ws where ws: "Sheets wb n = Some ws" by auto
  have rest: "list_all (\<lambda>n. Sheets wb n \<noteq> None) names" using Cons.prems by simp
  have bc: "book_chunks wb sid csize (n # names) = sheet_chunks sid csize n ws @ book_chunks wb sid csize names"
    by (simp add: book_chunks_def ws)
  define acc' where "acc' = \<lparr>acc_chunks = acc_chunks acc @ sheet_chunks sid csize n ws,
      acc_map = set_all (acc_map acc) (sheet_chunks sid csize n ws),
      acc_totalRows = acc_totalRows acc + (fst (range_e ws) + 1),
      acc_totalColumns = max (acc_totalColumns acc) (snd (range_e ws) + 1)\<rparr>"
  have step: "sheetLoop wb sid csize (n # names) acc = sheetLoop wb sid csize names acc'"
    using assms(1)
    by (simp add: ws Let_def ceil_div_def chunkLoop_from_zero sheet_chunks_def num_chunks_def
        data_rows_def acc'_def)
  show ?case
    using Cons.IH[OF rest, of acc']
    by (simp only: step bc) (simp add: acc'_def set_all_append)
qed

lemma sheetName_sheet_chunks: "c \<in> set (sheet_chunks sid csize n ws) \<Longrightarrow> sheetName c = n"
  by (auto simp: sheet_chunks_def mk_chunk_def Let_def)

lemma filter_book_chunks:
  assumes "distinct names" "s \<in> set names" "Sheets wb s = Some ws"
  shows "filter (\<lambda>c. sheetName c = s) (book_chunks wb sid csize names) = sheet_chunks sid csize s ws"
  using assms(1,2)
proof (induction names)
  case Nil
  then show ?case by simp
next
  case (Cons n names)
  have none: "s \<notin> set ns \<Longrightarrow> filter (\<lambda>c. sheetName c = s) (book_chunks wb sid csize ns) = []" for ns
    by (induction ns) (auto simp: book_chunks_def filter_empty_conv split: option.splits dest: sheetName_sheet_chunks)
  have all: "filter (\<lambda>c. sheetName c = s) (sheet_chunks sid csize s ws) = sheet_chunks sid csize s ws"
    by (auto simp: filter_id_conv dest: sheetName_sheet_chunks)
  have other: "n \<noteq> s \<Longrightarrow> filter (\<lambda>c. sheetName c = s) (case Sheets wb n of None \<Rightarrow> [] | Some w \<Rightarrow> sheet_chunks sid csize n w) = []"
    by (auto simp: filter_empty_conv split: option.splits dest: sheetName_sheet_chunks)
  show ?case
  proof (cases "n = s")
    case True
    then have "s \<notin> set names" using Cons.prems by simp
    then show ?thesis using True none all by (simp add: book_chunks_def assms(3))
  next
    case False
    then have "s \<in> set names" "distinct names" using Cons.prems by auto
    then show ?thesis using Cons.IH other[OF False] by (simp add: book_chunks_def)
  qed
qed

lemma parse_ok:
  assumes "source st = Inr wb" "chunkSize st \<noteq> 0" "list_all (\<lambda>n. Sheets wb n \<noteq> None) (SheetNames wb)"
  shows "\<exists>md. parseExcelInChunks st =
           Some (Inr (md, book_chunks wb (sessionId st) (chunkSize st) (SheetNames wb)),
                 st\<lparr>workbook := Some wb,
                    chunks := set_all (chunks st) (book_chunks wb (sessionId st) (chunkSize st) (SheetNames wb))\<rparr>)"
proof -
  obtain tr tc where "sheetLoop wb (sessionId st) (chunkSize st) (SheetNames wb)
        \<lparr>acc_chunks = [], acc_map = chunks st, acc_totalRows = 0, acc_totalColumns = 0\<rparr> =
     Some (None, \<lparr>acc_chunks = [] @ book_chunks wb (sessionId st) (chunkSize st) (SheetNames wb),
                  acc_map = set_all (chunks st) (book_chunks wb (sessionId st) (chunkSize st) (SheetNames wb)),
                  acc_totalRows = tr, acc_totalColumns = tc\<rparr>)"
    using sheetLoop_ok[OF assms(2,3), of "sessionId st" "\<lparr>acc_chunks = [], acc_map = chunks st, acc_totalRows = 0, acc_totalColumns = 0\<rparr>"]
    by auto
  then show ?thesis by (simp add: parseExcelInChunks_def assms(1) Let_def)
qed








lemma names_processor_chunks:
  "map_option (\<lambda>r. case fst r of Inl e \<Rightarrow> [] | Inr (md, cs) \<Rightarrow> map (\<lambda>c. (chunkId c, startRow c, endRow c)) cs)
     (parseExcelInChunks names_processor)
   = Some [(''s_Data_chunk_0'', 1, 2), (''s_Data_chunk_1'', 3, 4), (''s_Data_chunk_2'', 5, 5)]"
  by code_simp

section \<open>Chunk sizes that are not positive\<close>

lemma data_rows_nonneg: "0 \<le> data_rows ws"
  by (simp add: data_rows_def range_e_def split: option.splits prod.splits)



lemma chunkLoop_stop: "\<not> js_less i b \<Longrightarrow> chunkLoop sid csize name hdrs sr b i acc = Some acc"
  by (subst chunkLoop.simps) simp


lemma chunkLoop_infinite: "chunkLoop sid csize name hdrs sr PosInfinity i acc = None"
proof (rule ccontr)
  assume "chunkLoop sid csize name hdrs sr PosInfinity i acc \<noteq> None"
  then obtain y where y: "chunkLoop sid csize name hdrs sr PosInfinity i acc = Some y" by auto
  have "PosInfinity \<noteq> PosInfinity"
    by (rule chunkLoop.raw_induct[where P = "\<lambda>sid csize name hdrs sr b i acc y. b \<noteq> PosInfinity", OF _ y])
       (auto split: if_splits simp: Let_def)
  then show False by simp
qed



text \<open>
  With chunk size \<open>0\<close> and a sheet that has data rows the bound of the inner loop is infinite:
  the call does not return.
\<close>

lemma sheetLoop_zero_diverges:
  assumes "list_all (\<lambda>n. Sheets wb n \<noteq> None) names"
    and "n \<in> set names" "Sheets wb n = Some ws" "1 \<le> data_rows ws"
  shows "sheetLoop wb sid 0 names acc = None"
  using assms(1,2)
proof (induction names arbitrary: acc)
  case Nil
  then show ?case by simp
next
  case (Cons m names)
  then obtain w where w: "Sheets wb m = Some w" by auto
  show ?case
  proof (cases "data_rows w = 0")
    case True
    then have "m \<noteq> n" using assms(3,4) w by auto
    then have "n \<in> set names" "list_all (\<lambda>n. Sheets wb n \<noteq> None) names" using Cons.prems by auto
    then show ?thesis
      using Cons.IH True by (simp add: w Let_def ceil_div_def chunkLoop_stop data_rows_def)
  next
    case False
    then have "0 < fst (range_e w)" using data_rows_nonneg[of w] by (simp add: data_rows_def)
    then show ?thesis by (simp add: w Let_def ceil_div_def chunkLoop_infinite)
  qed
qed

lemma parse_zero_diverges:
  assumes "source st = Inr wb" "chunkSize st = 0" "well_formed wb"
    and "n \<in> set (SheetNames wb)" "Sheets wb n = Some ws" "1 \<le> data_rows ws"
  shows "parseExcelInChunks st = None"
  using sheetLoop_zero_diverges[OF _ assms(4,5,6)] assms(1,2,3)
  by (simp add: parseExcelInChunks_def well_formed_def)




section \<open>Chunk identifiers and routing\<close>

lemma digit_char_code: "d < 10 \<Longrightarrow> (of_char (digit_char d) :: nat) = 48 + d"
proof -
  assume "d < 10"
  then have "d \<in> {0,1,2,3,4,5,6,7,8,9}" by auto
  then show ?thesis by (auto simp: digit_char_def)
qed

lemma is_digit_digit_char: "is_digit (digit_char d)"
proof -
  have "d mod 10 < 10" by simp
  then have "(of_char (digit_char (d mod 10)) :: nat) = 48 + d mod 10" by (rule digit_char_code)
  moreover have "digit_char (d mod 10) = digit_char d" by (simp add: digit_char_def)
  ultimately show ?thesis by (simp add: is_digit_def)
qed

lemma show_nat_digits: "list_all is_digit (show_nat n)"
  by (induction n rule: show_nat.induct) (subst show_nat.simps, simp add: is_digit_digit_char)

lemma show_nat_nonempty: "show_nat n \<noteq> []"
  by (subst show_nat.simps) simp

lemma digits_value_snoc: "digits_value (xs @ [c]) = 10 * digits_value xs + (of_char c - 48)"
  by (simp add: digits_value_def)

lemma digits_value_show_nat: "digits_value (show_nat n) = n"
proof (induction n rule: show_nat.induct)
  case (1 n)
  show ?case
  proof (cases "n < 10")
    case True
    then show ?thesis by (subst show_nat.simps) (simp add: digits_value_def digit_char_code)
  next
    case False
    have m: "n mod 10 < 10" by simp
    from False 1 have "digits_value (show_nat (n div 10)) = n div 10" by simp
    then show ?thesis using False
      by (subst show_nat.simps) (simp add: digits_value_snoc digit_char_code[OF m])
  qed
qed

lemma show_nat_inj: "show_nat a = show_nat b \<Longrightarrow> a = b"
  by (metis digits_value_show_nat)

lemma underscore_not_digit: "\<not> is_digit CHR ''_''"
  by (simp add: is_digit_def)

lemma chunk_suffix_unique:
  assumes "n1 @ ''_chunk_'' @ d1 = n2 @ ''_chunk_'' @ d2" "list_all is_digit d1" "list_all is_digit d2"
  shows "n1 = n2 \<and> d1 = d2"
proof -
  have r: "rev d1 @ rev ''_chunk_'' @ rev n1 = rev d2 @ rev ''_chunk_'' @ rev n2"
    using arg_cong[OF assms(1), of rev] by simp
  have t: "takeWhile is_digit (rev d @ rev ''_chunk_'' @ x) = rev d" if "list_all is_digit d" for d x
    using that by (subst takeWhile_append2) (auto simp: list_all_iff underscore_not_digit)
  have "rev d1 = rev d2" using t[OF assms(2), of "rev n1"] t[OF assms(3), of "rev n2"] r by simp
  then have d: "d1 = d2" by simp
  then show ?thesis using assms(1) by simp
qed

lemma chunkId_mk_chunk_inj:
  assumes "chunkId (mk_chunk sid C n1 h1 r1 i1) = chunkId (mk_chunk sid C' n2 h2 r2 i2)" "0 \<le> i1" "0 \<le> i2"
  shows "n1 = n2 \<and> i1 = i2"
proof -
  have e: "n1 @ ''_chunk_'' @ show_nat (nat i1) = n2 @ ''_chunk_'' @ show_nat (nat i2)"
    using assms by (simp add: mk_chunk_def Let_def show_int_def)
  from chunk_suffix_unique[OF e show_nat_digits show_nat_digits]
  have "n1 = n2" "nat i1 = nat i2" by (auto dest: show_nat_inj)
  then show ?thesis using assms(2,3) by simp
qed

lemma distinct_sheet_chunk_ids: "distinct (map chunkId (sheet_chunks sid C n ws))"
proof -
  have "inj_on (\<lambda>i. chunkId (mk_chunk sid C n (sheet_headers ws) (data_rows ws + 1) i)) (set [0..num_chunks ws C - 1])"
    by (rule inj_onI) (auto dest: chunkId_mk_chunk_inj)
  then show ?thesis by (simp add: sheet_chunks_def distinct_map comp_def)
qed

lemma chunkId_sheet_chunks_name:
  assumes "c1 \<in> set (sheet_chunks sid C n1 w1)" "c2 \<in> set (sheet_chunks sid C n2 w2)" "chunkId c1 = chunkId c2"
  shows "n1 = n2"
  using assms by (auto simp: sheet_chunks_def dest: chunkId_mk_chunk_inj)

lemma distinct_book_chunk_ids:
  "distinct names \<Longrightarrow> distinct (map chunkId (book_chunks wb sid C names))"
proof (induction names)
  case Nil
  then show ?case by (simp add: book_chunks_def)
next
  case (Cons n names)
  have bc: "book_chunks wb sid C (n # names) =
      (case Sheets wb n of None \<Rightarrow> [] | Some ws \<Rightarrow> sheet_chunks sid C n ws) @ book_chunks wb sid C names"
    by (simp add: book_chunks_def)
  have mem: "c \<in> set (book_chunks wb sid C names) \<Longrightarrow> \<exists>m w. m \<in> set names \<and> c \<in> set (sheet_chunks sid C m w)" for c
    by (auto simp: book_chunks_def split: option.splits)
  have disj: "chunkId c1 \<noteq> chunkId c2"
    if "c1 \<in> set (sheet_chunks sid C n w)" "c2 \<in> set (book_chunks wb sid C names)" for c1 c2 w
  proof
    assume e: "chunkId c1 = chunkId c2"
    from mem[OF that(2)] obtain m w' where m: "m \<in> set names" "c2 \<in> set (sheet_chunks sid C m w')" by blast
    from chunkId_sheet_chunks_name[OF that(1) m(2) e] have "n = m" .
    then show False using m(1) Cons.prems by simp
  qed
  show ?case
    using Cons disj by (auto simp: bc distinct_sheet_chunk_ids split: option.splits)
qed

lemma set_all_fresh:
  "distinct (map chunkId cs) \<Longrightarrow> set (map chunkId cs) \<inter> fst ` set m = {} \<Longrightarrow>
     set_all m cs = m @ map (\<lambda>c. (chunkId c, c)) cs"
proof (induction cs arbitrary: m)
  case Nil
  then show ?case by (simp add: set_all_def)
next
  case (Cons c cs)
  have u: "AList.update (chunkId c) c m = m @ [(chunkId c, c)]" if "chunkId c \<notin> fst ` set m" for m :: "(string \<times> ChunkMetadata) list"
    using that by (induction m) auto
  have 1: "AList.update (chunkId c) c m = m @ [(chunkId c, c)]" using Cons.prems(2) by (intro u) auto
  have "set_all m (c # cs) = set_all (m @ [(chunkId c, c)]) cs" by (simp add: set_all_def 1)
  also have "\<dots> = (m @ [(chunkId c, c)]) @ map (\<lambda>c. (chunkId c, c)) cs"
    using Cons.prems by (intro Cons.IH) auto
  finally show ?case by simp
qed

text \<open>
  Claim C7 says that a chunk is affected only if its header list contains the target column,
  when one is set. \<open>determineAffectedChunks\<close> looks at the column only when no target sheet
  is set. For the sheet \<open>Contacts\<close> of 2500 rows with the one column \<open>Email\<close>, chunked at 1000
  rows, a recommendation for the column \<open>Phone\<close> of that sheet is routed to all three
  chunks, though no chunk of the sheet has that column.
\<close>

theorem C7_counterexample:
  "determineAffectedChunks \<lparr>targetSheet = JString ''Contacts'', targetColumn = JString ''Phone''\<rparr>
     (parsed_chunks (parseExcelInChunks email_processor))
     = [''s_Contacts_chunk_0'', ''s_Contacts_chunk_1'', ''s_Contacts_chunk_2''] \<and>
   map chunkId (filter (\<lambda>c. sheetName c = ''Contacts'' \<and> ''Phone'' \<in> set (headers c))
     (parsed_chunks (parseExcelInChunks email_processor))) = []"
  by code_simp

lemma email_example:
  "map (\<lambda>c. (chunkId c, startRow c, endRow c, headers c)) (parsed_chunks (parseExcelInChunks email_processor))
     = [(''s_Contacts_chunk_0'', 1, 1000, [''Email'']), (''s_Contacts_chunk_1'', 1001, 2000, [''Email'']),
        (''s_Contacts_chunk_2'', 2001, 2500, [''Email''])] \<and>
   determineAffectedChunks \<lparr>targetSheet = JString ''Contacts'', targetColumn = JString ''Email''\<rparr>
     (parsed_chunks (parseExcelInChunks email_processor))
     = [''s_Contacts_chunk_0'', ''s_Contacts_chunk_1'', ''s_Contacts_chunk_2'']"
  by code_simp

text \<open>
  Claim C7 as amended. After partitioning a well-formed workbook with a positive chunk size
  into the chunks \<open>cs\<close>: a recommendation with a target sheet is routed to all chunks of that
  sheet, in creation order (the order of the rows), whatever its target column is; one with
  no target sheet and a target column is routed to the chunks, of any sheet, whose header
  list contains the column; one with neither is routed to all chunks. The route that applies
  a recommendation keeps the listed chunks, and with none listed takes the chunks of the
  target sheet. In particular the recommendation for the column \<open>Email\<close> of the 2500-row
  sheet chunked at 1000 rows is routed to all three chunks.
\<close>

theorem C7_routing:
  assumes src: "source st = Inr wb" and wf: "well_formed wb" and C: "0 < chunkSize st"
    and fresh: "chunks st = []"
    and p: "parseExcelInChunks st = Some (Inr (md, cs), st')"
  shows "(\<forall>s ws. s \<noteq> [] \<and> targetSheet r = JString s \<and> Sheets wb s = Some ws \<and> s \<in> set (SheetNames wb) \<longrightarrow>
            determineAffectedChunks r cs = map chunkId (sheet_chunks (sessionId st) (chunkSize st) s ws) \<and>
            chunksToProcess st' [] (targetSheet r) = sheet_chunks (sessionId st) (chunkSize st) s ws) \<and>
         (\<forall>col. \<not> truthy (targetSheet r) \<and> col \<noteq> [] \<and> targetColumn r = JString col \<longrightarrow>
            determineAffectedChunks r cs = map chunkId (filter (\<lambda>c. col \<in> set (headers c)) cs)) \<and>
         (\<not> truthy (targetSheet r) \<and> \<not> truthy (targetColumn r) \<longrightarrow>
            determineAffectedChunks r cs = map chunkId cs) \<and>
         (\<forall>ids. ids \<noteq> [] \<longrightarrow> chunksToProcess st' ids (targetSheet r) = filter (\<lambda>c. chunkId c \<in> set ids) cs) \<and>
         determineAffectedChunks \<lparr>targetSheet = JString ''Contacts'', targetColumn = JString ''Email''\<rparr>
             (parsed_chunks (parseExcelInChunks email_processor))
           = [''s_Contacts_chunk_0'', ''s_Contacts_chunk_1'', ''s_Contacts_chunk_2'']"
proof -
  let ?bc = "book_chunks wb (sessionId st) (chunkSize st) (SheetNames wb)"
  have nz: "chunkSize st \<noteq> 0" using C by simp
  obtain md0 where p0: "parseExcelInChunks st =
      Some (Inr (md0, ?bc), st\<lparr>workbook := Some wb, chunks := set_all (chunks st) ?bc\<rparr>)"
    using parse_ok[OF src nz] wf by (auto simp: well_formed_def)
  have cs: "cs = ?bc" and st': "st' = st\<lparr>workbook := Some wb, chunks := set_all [] ?bc\<rparr>"
    using p p0 fresh by auto
  have d: "distinct (map chunkId ?bc)" using wf by (simp add: distinct_book_chunk_ids well_formed_def)
  have all: "getAllChunks st' = cs"
    using set_all_fresh[OF d, of "[]"] by (simp add: getAllChunks_def st' cs comp_def)
  have A: "determineAffectedChunks r cs = map chunkId (sheet_chunks (sessionId st) (chunkSize st) s ws) \<and>
           chunksToProcess st' [] (targetSheet r) = sheet_chunks (sessionId st) (chunkSize st) s ws"
    if "s \<noteq> []" "targetSheet r = JString s" "Sheets wb s = Some ws" "s \<in> set (SheetNames wb)" for s ws
  proof -
    have f: "filter (\<lambda>c. sheetName c = s) cs = sheet_chunks (sessionId st) (chunkSize st) s ws"
      unfolding cs using filter_book_chunks[OF _ that(4,3)] wf by (simp add: well_formed_def)
    show ?thesis using that(1,2) f by (simp add: determineAffectedChunks_def chunksToProcess_def all)
  qed
  have B: "determineAffectedChunks r cs = map chunkId (filter (\<lambda>c. col \<in> set (headers c)) cs)"
    if "\<not> truthy (targetSheet r)" "col \<noteq> []" "targetColumn r = JString col" for col
  proof -
    have e: "(JString col \<in> JString ` set (headers c)) = (col \<in> set (headers c))" for c by auto
    show ?thesis using that by (simp add: determineAffectedChunks_def e)
  qed
  have Cc: "\<not> truthy (targetSheet r) \<and> \<not> truthy (targetColumn r) \<longrightarrow> determineAffectedChunks r cs = map chunkId cs"
    by (simp add: determineAffectedChunks_def)
  have D: "chunksToProcess st' ids (targetSheet r) = filter (\<lambda>c. chunkId c \<in> set ids) cs" if "ids \<noteq> []" for ids
    using that by (simp add: chunksToProcess_def all)
  show ?thesis using A B Cc D email_example by blast
qed

theorem C7_routing_witness:
  "source email_processor = Inr (book [(''Contacts'', email_sheet)]) \<and>
   well_formed (book [(''Contacts'', email_sheet)]) \<and>
   0 < chunkSize email_processor \<and>
   chunks email_processor = [] \<and>
   (\<exists>md st'. parseExcelInChunks email_processor =
       Some (Inr (md, parsed_chunks (parseExcelInChunks email_processor)), st')) \<and>
   ''Contacts'' \<noteq> [] \<and>
   Sheets (book [(''Contacts'', email_sheet)]) ''Contacts'' = Some email_sheet \<and>
   ''Contacts'' \<in> set (SheetNames (book [(''Contacts'', email_sheet)])) \<and>
   determineAffectedChunks \<lparr>targetSheet = JString ''Contacts'', targetColumn = JString ''Email''\<rparr>
       (parsed_chunks (parseExcelInChunks email_processor))
     = map chunkId (sheet_chunks (sessionId email_processor) (chunkSize email_processor) ''Contacts'' email_sheet) \<and>
   \<not> truthy JUndefined \<and>
   determineAffectedChunks \<lparr>targetSheet = JUndefined, targetColumn = JUndefined\<rparr>
       (parsed_chunks (parseExcelInChunks email_processor))
     = map chunkId (parsed_chunks (parseExcelInChunks email_processor))"
proof -
  let ?wb = "book [(''Contacts'', email_sheet)]"
  have h1: "source email_processor = Inr ?wb" by (simp add: email_processor_def new_processor_def)
  have h2: "well_formed ?wb" by (simp add: well_formed_def book_def)
  have h3: "0 < chunkSize email_processor" by (simp add: email_processor_def new_processor_def)
  have h4: "chunks email_processor = []" by (simp add: email_processor_def new_processor_def)
  have nz: "chunkSize email_processor \<noteq> 0" using h3 by simp
  obtain md cs st' where p: "parseExcelInChunks email_processor = Some (Inr (md, cs), st')"
    using parse_ok[OF h1 nz] h2 by (auto simp: well_formed_def)
  have pc: "parsed_chunks (parseExcelInChunks email_processor) = cs" by (simp add: p parsed_chunks_def)
  have h5: "Sheets ?wb ''Contacts'' = Some email_sheet" by (simp add: book_def)
  have h6: "''Contacts'' \<in> set (SheetNames ?wb)" by (simp add: book_def)
  note sheet_case = C7_routing[OF h1 h2 h3 h4 p,
      of "\<lparr>targetSheet = JString ''Contacts'', targetColumn = JString ''Email''\<rparr>"]
  note none_case = C7_routing[OF h1 h2 h3 h4 p,
      of "\<lparr>targetSheet = JUndefined, targetColumn = JUndefined\<rparr>"]
  have a: "determineAffectedChunks \<lparr>targetSheet = JString ''Contacts'', targetColumn = JString ''Email''\<rparr> cs
      = map chunkId (sheet_chunks (sessionId email_processor) (chunkSize email_processor) ''Contacts'' email_sheet)"
    using sheet_case h5 h6 by simp
  have b: "determineAffectedChunks \<lparr>targetSheet = JUndefined, targetColumn = JUndefined\<rparr> cs = map chunkId cs"
    using none_case by simp
  have nonempty: "''Contacts'' \<noteq> []" and falsy: "\<not> truthy JUndefined" by simp_all
  show ?thesis unfolding pc using h1 h2 h3 h4 h5 h6 p a b nonempty falsy by blast
qed

section \<open>Applying a transformation to a chunk\<close>

lemma dispatch_unrecognized: "t_type t \<notin> set recognized_types \<Longrightarrow> dispatch h st cid t = Inr st"
  by (simp add: dispatch_def recognized_types_def)

lemma dispatch_column_absent:
  assumes "payload st cid = Some (hdrs # rows)" "t_type t \<in> set column_scoped_types"
    "indexOf hdrs (t_column t) = - 1"
  shows "dispatch h st cid t = Inr st"
  using assms
  by (auto simp: dispatch_def column_scoped_types_def payload_def with_payload_def
      fillMissingValuesInChunk_def standardizeFormatInChunk_def fixDataTypesInChunk_def
      trimWhitespaceInChunk_def)

text \<open>
  Claim C10 says that an unrecognised type is logged as completed for every materialized
  chunk. \<open>applyTransformationToChunk\<close> first returns when the stored payload has fewer than two
  rows, before the switch and before the log. Splitting the one data row \<open>","\<close> of a chunk at
  the default delimiters leaves only the header row; a later transformation of the
  unrecognised type \<open>archive\<close> then returns without a log entry: the log holds the entry of
  the split alone.
\<close>

theorem C10_counterexample:
  "payload (applied ascii_host ''t1'' tags_loaded ''s_T_chunk_0''
              ((descriptor ''split_multi_value'')\<lparr>t_columns := Some [''Tags'']\<rparr>)) ''s_T_chunk_0''
     = Some [[JString ''Tags'']] \<and>
   JString ''archive'' \<notin> set recognized_types \<and>
   fst (applyTransformationToChunk ascii_host ''t2''
          (applied ascii_host ''t1'' tags_loaded ''s_T_chunk_0''
              ((descriptor ''split_multi_value'')\<lparr>t_columns := Some [''Tags'']\<rparr>))
          ''s_T_chunk_0'' (descriptor ''archive'')) = Inr () \<and>
   map (\<lambda>e. t_type (log_transformation e))
     (getTransformationLog
        (applied ascii_host ''t2''
           (applied ascii_host ''t1'' tags_loaded ''s_T_chunk_0''
              ((descriptor ''split_multi_value'')\<lparr>t_columns := Some [''Tags'']\<rparr>))
           ''s_T_chunk_0'' (descriptor ''archive'')))
     = [JString ''split_multi_value'']"
  by code_simp

text \<open>
  Claim C10 as amended. For every chunk whose stored payload has a header row and at least
  one data row, and every transformation whose type is none of the seven recognised strings,
  \<open>applyTransformationToChunk\<close> raises no error, leaves the payload of the chunk (and of every
  other chunk) as it was, and appends exactly one entry, with status \<open>completed\<close>, to the
  transformation log.
\<close>

theorem C10_unrecognized_type_logged:
  assumes "payload st cid = Some chunkData" "2 \<le> length chunkData" "t_type t \<notin> set recognized_types"
  shows "applyTransformationToChunk h now st cid t =
           (Inr (), st\<lparr>transformationLog := transformationLog st @ [completed now cid t]\<rparr>) \<and>
         payload (applied h now st cid t) cid = Some chunkData \<and>
         processedData (applied h now st cid t) = processedData st \<and>
         getTransformationLog (applied h now st cid t) = getTransformationLog st @ [completed now cid t] \<and>
         status (completed now cid t) = ''completed''"
proof -
  have a: "applyTransformationToChunk h now st cid t =
           (Inr (), st\<lparr>transformationLog := transformationLog st @ [completed now cid t]\<rparr>)"
    using assms by (simp add: applyTransformationToChunk_def payload_def dispatch_unrecognized completed_def)
  have b: "payload (applied h now st cid t) cid = Some chunkData"
    using assms(1) by (simp add: applied_def a payload_def)
  have c: "processedData (applied h now st cid t) = processedData st"
    by (simp add: applied_def a)
  have d: "getTransformationLog (applied h now st cid t) = getTransformationLog st @ [completed now cid t]"
    by (simp add: applied_def a getTransformationLog_def)
  have e: "status (completed now cid t) = ''completed''" by (simp add: completed_def)
  show ?thesis using a b c d e by blast
qed

lemma people_payload:
  "payload people_loaded ''s_People_chunk_0'' =
     Some [[JString ''Name'', JString ''City''], [JString ''ann'', JString ''Paris''],
           [JString ''bob'', JString ''Rome''], [JString ''cy'', JNull]]"
  by code_simp

theorem C10_unrecognized_type_logged_witness:
  "payload people_loaded ''s_People_chunk_0'' =
     Some [[JString ''Name'', JString ''City''], [JString ''ann'', JString ''Paris''],
           [JString ''bob'', JString ''Rome''], [JString ''cy'', JNull]] \<and>
   2 \<le> length [[JString ''Name'', JString ''City''], [JString ''ann'', JString ''Paris''],
                [JString ''bob'', JString ''Rome''], [JString ''cy'', JNull]] \<and>
   t_type (descriptor ''archive'') \<notin> set recognized_types \<and>
   applyTransformationToChunk ascii_host ''t1'' people_loaded ''s_People_chunk_0'' (descriptor ''archive'') =
     (Inr (), people_loaded\<lparr>transformationLog := transformationLog people_loaded @
                 [completed ''t1'' ''s_People_chunk_0'' (descriptor ''archive'')]\<rparr>) \<and>
   getTransformationLog (applied ascii_host ''t1'' people_loaded ''s_People_chunk_0'' (descriptor ''archive'')) =
     getTransformationLog people_loaded @ [completed ''t1'' ''s_People_chunk_0'' (descriptor ''archive'')]"
proof -
  have h2: "2 \<le> length [[JString ''Name'', JString ''City''], [JString ''ann'', JString ''Paris''],
                [JString ''bob'', JString ''Rome''], [JString ''cy'', JNull]]" by simp
  have h3: "t_type (descriptor ''archive'') \<notin> set recognized_types"
    by (simp add: descriptor_def recognized_types_def)
  show ?thesis
    using people_payload h2 h3
      C10_unrecognized_type_logged[OF people_payload h2 h3, of ascii_host "''t1''"]
    by blast
qed

text \<open>
  Claim C5 says that a transformation on a chunk whose header lacks the targeted column raises
  an error. Filling the missing values of a column \<open>Age\<close> in a chunk with the columns \<open>Name\<close>
  and \<open>City\<close> returns normally, and the payload is what it was.
\<close>

theorem C5_counterexample:
  "payload people_loaded ''s_People_chunk_0'' =
     Some [[JString ''Name'', JString ''City''], [JString ''ann'', JString ''Paris''],
           [JString ''bob'', JString ''Rome''], [JString ''cy'', JNull]] \<and>
   indexOf [JString ''Name'', JString ''City''] (JString ''Age'') = - 1 \<and>
   fst (applyTransformationToChunk ascii_host ''t1'' people_loaded ''s_People_chunk_0''
          ((descriptor ''fill_missing'')\<lparr>t_column := JString ''Age'', t_method := JString ''mode''\<rparr>)) = Inr () \<and>
   payload (applied ascii_host ''t1'' people_loaded ''s_People_chunk_0''
          ((descriptor ''fill_missing'')\<lparr>t_column := JString ''Age'', t_method := JString ''mode''\<rparr>))
       ''s_People_chunk_0''
     = payload people_loaded ''s_People_chunk_0''"
  by code_simp

text \<open>
  Claim C5 as amended. None of the three structural failures raises an error. When the chunk
  id has no stored payload (unknown or not materialized), or the payload has fewer than two
  rows, \<open>applyTransformationToChunk\<close> returns normally and changes nothing, the log included.
  When the payload has a data row and the header row lacks the column of a \<open>fill_missing\<close>,
  \<open>standardize_format\<close>, \<open>fix_data_types\<close> or \<open>trim_whitespace\<close> transformation, or the type
  is none of the recognised ones, it returns normally, changes no payload and appends a log
  entry with status \<open>completed\<close>.
\<close>

theorem C5_structural_failures_silent:
  "(payload st cid = None \<or> (\<exists>d. payload st cid = Some d \<and> length d < 2) \<longrightarrow>
      applyTransformationToChunk h now st cid t = (Inr (), st)) \<and>
   (\<forall>hdrs rows. payload st cid = Some (hdrs # rows) \<and> rows \<noteq> [] \<and>
        t_type t \<in> set column_scoped_types \<and> indexOf hdrs (t_column t) = - 1 \<longrightarrow>
      applyTransformationToChunk h now st cid t =
        (Inr (), st\<lparr>transformationLog := transformationLog st @ [completed now cid t]\<rparr>)) \<and>
   (\<forall>d. payload st cid = Some d \<and> 2 \<le> length d \<and> t_type t \<notin> set recognized_types \<longrightarrow>
      applyTransformationToChunk h now st cid t =
        (Inr (), st\<lparr>transformationLog := transformationLog st @ [completed now cid t]\<rparr>))"
proof (intro conjI allI impI)
  assume "payload st cid = None \<or> (\<exists>d. payload st cid = Some d \<and> length d < 2)"
  then show "applyTransformationToChunk h now st cid t = (Inr (), st)"
    by (auto simp: applyTransformationToChunk_def payload_def)
next
  fix hdrs rows
  assume a: "payload st cid = Some (hdrs # rows) \<and> rows \<noteq> [] \<and>
        t_type t \<in> set column_scoped_types \<and> indexOf hdrs (t_column t) = - 1"
  then have "dispatch h st cid t = Inr st" by (intro dispatch_column_absent[of st cid hdrs rows]) auto
  moreover have "\<not> length (hdrs # rows) < 2" using a by (cases rows) auto
  ultimately show "applyTransformationToChunk h now st cid t =
        (Inr (), st\<lparr>transformationLog := transformationLog st @ [completed now cid t]\<rparr>)"
    using a by (simp add: applyTransformationToChunk_def payload_def completed_def)
next
  fix d
  assume a: "payload st cid = Some d \<and> 2 \<le> length d \<and> t_type t \<notin> set recognized_types"
  then show "applyTransformationToChunk h now st cid t =
        (Inr (), st\<lparr>transformationLog := transformationLog st @ [completed now cid t]\<rparr>)"
    by (simp add: applyTransformationToChunk_def payload_def dispatch_unrecognized completed_def)
qed

theorem C5_structural_failures_silent_witness:
  "payload people_loaded ''s_People_chunk_9'' = None \<and>
   applyTransformationToChunk ascii_host ''t1'' people_loaded ''s_People_chunk_9''
       ((descriptor ''fill_missing'')\<lparr>t_column := JString ''City''\<rparr>) = (Inr (), people_loaded) \<and>
   payload people_loaded ''s_People_chunk_0'' =
     Some ([JString ''Name'', JString ''City''] #
           [[JString ''ann'', JString ''Paris''], [JString ''bob'', JString ''Rome''], [JString ''cy'', JNull]]) \<and>
   [[JString ''ann'', JString ''Paris''], [JString ''bob'', JString ''Rome''], [JString ''cy'', JNull]] \<noteq> [] \<and>
   t_type ((descriptor ''fill_missing'')\<lparr>t_column := JString ''Age''\<rparr>) \<in> set column_scoped_types \<and>
   indexOf [JString ''Name'', JString ''City''] (t_column ((descriptor ''fill_missing'')\<lparr>t_column := JString ''Age''\<rparr>)) = - 1 \<and>
   applyTransformationToChunk ascii_host ''t1'' people_loaded ''s_People_chunk_0''
       ((descriptor ''fill_missing'')\<lparr>t_column := JString ''Age''\<rparr>) =
     (Inr (), people_loaded\<lparr>transformationLog := transformationLog people_loaded @
        [completed ''t1'' ''s_People_chunk_0'' ((descriptor ''fill_missing'')\<lparr>t_column := JString ''Age''\<rparr>)]\<rparr>) \<and>
   2 \<le> length ([JString ''Name'', JString ''City''] #
           [[JString ''ann'', JString ''Paris''], [JString ''bob'', JString ''Rome''], [JString ''cy'', JNull]]) \<and>
   t_type (descriptor ''remove_duplicates_global'') \<notin> set recognized_types \<and>
   applyTransformationToChunk ascii_host ''t1'' people_loaded ''s_People_chunk_0''
       (descriptor ''remove_duplicates_global'') =
     (Inr (), people_loaded\<lparr>transformationLog := transformationLog people_loaded @
        [completed ''t1'' ''s_People_chunk_0'' (descriptor ''remove_duplicates_global'')]\<rparr>)"
proof -
  let ?rows = "[[JString ''ann'', JString ''Paris''], [JString ''bob'', JString ''Rome''], [JString ''cy'', JNull]]"
  let ?hdrs = "[JString ''Name'', JString ''City'']"
  let ?age = "(descriptor ''fill_missing'')\<lparr>t_column := JString ''Age''\<rparr>"
  have a1: "payload people_loaded ''s_People_chunk_9'' = None" by code_simp
  have b1: "payload people_loaded ''s_People_chunk_0'' = Some (?hdrs # ?rows)" by (rule people_payload)
  have b2: "?rows \<noteq> []" by simp
  have b3: "t_type ?age \<in> set column_scoped_types" by (simp add: descriptor_def column_scoped_types_def)
  have b4: "indexOf ?hdrs (t_column ?age) = - 1" by (simp add: descriptor_def indexOf_def)
  have c2: "2 \<le> length (?hdrs # ?rows)" by simp
  have c3: "t_type (descriptor ''remove_duplicates_global'') \<notin> set recognized_types"
    by (simp add: descriptor_def recognized_types_def)
  note A = C5_structural_failures_silent[of people_loaded "''s_People_chunk_9''" ascii_host "''t1''"
      "(descriptor ''fill_missing'')\<lparr>t_column := JString ''City''\<rparr>"]
  note B = C5_structural_failures_silent[of people_loaded "''s_People_chunk_0''" ascii_host "''t1''" ?age]
  note C = C5_structural_failures_silent[of people_loaded "''s_People_chunk_0''" ascii_host "''t1''"
      "descriptor ''remove_duplicates_global''"]
  have a: "applyTransformationToChunk ascii_host ''t1'' people_loaded ''s_People_chunk_9''
       ((descriptor ''fill_missing'')\<lparr>t_column := JString ''City''\<rparr>) = (Inr (), people_loaded)"
    using A a1 by blast
  have b: "applyTransformationToChunk ascii_host ''t1'' people_loaded ''s_People_chunk_0'' ?age =
     (Inr (), people_loaded\<lparr>transformationLog := transformationLog people_loaded @
        [completed ''t1'' ''s_People_chunk_0'' ?age]\<rparr>)"
    using B b1 b2 b3 b4 by blast
  have c: "applyTransformationToChunk ascii_host ''t1'' people_loaded ''s_People_chunk_0''
       (descriptor ''remove_duplicates_global'') =
     (Inr (), people_loaded\<lparr>transformationLog := transformationLog people_loaded @
        [completed ''t1'' ''s_People_chunk_0'' (descriptor ''remove_duplicates_global'')]\<rparr>)"
    using C b1 c2 c3 by blast
  show ?thesis using a1 a b1 b2 b3 b4 b c2 c3 c by blast
qed

section \<open>Materializing a chunk\<close>

text \<open>
  Claim C4 says that a second \<open>processChunk\<close> returns the payload already stored, without
  reading the source again. \<open>processChunk\<close> has no test for a stored payload: it reads the
  rows from the workbook on every call and stores them over the payload. After the empty
  city of the third row was filled, the stored payload has \<open>Rome\<close> there; the next
  \<open>processChunk\<close> returns, and stores, the source's empty cell.
\<close>

theorem C4_counterexample:
  "payload (applied ascii_host ''t1'' people_loaded ''s_People_chunk_0''
          ((descriptor ''fill_missing'')\<lparr>t_column := JString ''City'', t_method := JString ''mode''\<rparr>))
       ''s_People_chunk_0''
     = Some [[JString ''Name'', JString ''City''], [JString ''ann'', JString ''Paris''],
             [JString ''bob'', JString ''Rome''], [JString ''cy'', JString ''Rome'']] \<and>
   fst (processChunk (applied ascii_host ''t1'' people_loaded ''s_People_chunk_0''
          ((descriptor ''fill_missing'')\<lparr>t_column := JString ''City'', t_method := JString ''mode''\<rparr>))
       ''s_People_chunk_0'')
     = Inr [[JString ''Name'', JString ''City''], [JString ''ann'', JString ''Paris''],
            [JString ''bob'', JString ''Rome''], [JString ''cy'', JNull]] \<and>
   payload (snd (processChunk (applied ascii_host ''t1'' people_loaded ''s_People_chunk_0''
          ((descriptor ''fill_missing'')\<lparr>t_column := JString ''City'', t_method := JString ''mode''\<rparr>))
       ''s_People_chunk_0'')) ''s_People_chunk_0''
     = Some [[JString ''Name'', JString ''City''], [JString ''ann'', JString ''Paris''],
             [JString ''bob'', JString ''Rome''], [JString ''cy'', JNull]]"
  by code_simp

text \<open>
  Claim C4 as amended. For every known chunk id of a processor with a loaded workbook,
  \<open>processChunk\<close> returns the header row and the rows of the chunk's range as read from the
  source workbook, stores this payload and marks the chunk processed; a second call right
  after the first (no eviction and no transformation in between) reads the source again,
  returns an equal payload and leaves the processor as the first call left it.
\<close>

theorem C4_processChunk_twice:
  assumes "map_of (chunks st) cid = Some m" "workbook st = Some wb" "Sheets wb (sheetName m) = Some ws"
  shows "\<exists>p st1. processChunk st cid = (Inr p, st1) \<and>
                  processChunk st1 cid = (Inr p, st1) \<and>
                  p = map JString (headers m) # chunk_rows ws m \<and>
                  payload st1 cid = Some p \<and>
                  is_processed st1 cid"
proof -
  let ?p = "map JString (headers m) # chunk_rows ws m"
  let ?m = "m\<lparr>processed := True\<rparr>"
  let ?st1 = "st\<lparr>processedData := AList.update cid ?p (processedData st),
                  chunks := AList.update cid ?m (chunks st)\<rparr>"
  have first: "processChunk st cid = (Inr ?p, ?st1)"
    using assms by (simp add: processChunk_def store_chunk_def)
  have m1: "map_of (chunks ?st1) cid = Some ?m" by (simp add: update_conv')
  have rows: "chunk_rows ws ?m = chunk_rows ws m" by (simp add: chunk_rows_def)
  have second: "processChunk ?st1 cid = (Inr ?p, ?st1)"
    using assms(2,3) by (simp add: processChunk_def store_chunk_def update_conv' rows)
  have stored: "payload ?st1 cid = Some ?p" by (simp add: payload_def update_conv')
  have flag: "is_processed ?st1 cid" by (simp add: is_processed_def update_conv')
  show ?thesis using first second stored flag by blast
qed

lemma people_chunk:
  "map_of (chunks people_loaded) ''s_People_chunk_0'' =
     Some \<lparr>chunkId = ''s_People_chunk_0'', startRow = 1, endRow = 3, totalRows = 3,
           sheetName = ''People'', headers = [''Name'', ''City''], processed = True\<rparr>"
  by code_simp

lemma workbook_processChunk: "workbook (snd (processChunk st cid)) = workbook st"
  by (simp add: processChunk_def store_chunk_def split: option.splits)

lemma workbook_materialized: "workbook (materialized st ids) = workbook st"
  by (induction ids arbitrary: st) (simp_all add: materialized_def workbook_processChunk)

lemma workbook_parsed:
  assumes "source p = Inr wb" "chunkSize p \<noteq> 0" "well_formed wb"
  shows "workbook (parsed p) = Some wb"
proof -
  obtain md where "parseExcelInChunks p =
      Some (Inr (md, book_chunks wb (sessionId p) (chunkSize p) (SheetNames wb)),
            p\<lparr>workbook := Some wb,
              chunks := set_all (chunks p) (book_chunks wb (sessionId p) (chunkSize p) (SheetNames wb))\<rparr>)"
    using parse_ok[OF assms(1,2)] assms(3) by (auto simp: well_formed_def)
  then show ?thesis by (simp add: parsed_def)
qed

lemma people_workbook: "workbook people_loaded = Some (book [(''People'', grid_sheet people_grid)])"
  unfolding people_loaded_def workbook_materialized
  by (rule workbook_parsed) (simp_all add: new_processor_def well_formed_def book_def)

theorem C4_processChunk_twice_witness:
  "map_of (chunks people_loaded) ''s_People_chunk_0'' =
     Some \<lparr>chunkId = ''s_People_chunk_0'', startRow = 1, endRow = 3, totalRows = 3,
           sheetName = ''People'', headers = [''Name'', ''City''], processed = True\<rparr> \<and>
   workbook people_loaded = Some (book [(''People'', grid_sheet people_grid)]) \<and>
   Sheets (book [(''People'', grid_sheet people_grid)]) ''People'' = Some (grid_sheet people_grid) \<and>
   (\<exists>p st1. processChunk people_loaded ''s_People_chunk_0'' = (Inr p, st1) \<and>
             processChunk st1 ''s_People_chunk_0'' = (Inr p, st1) \<and>
             payload st1 ''s_People_chunk_0'' = Some p \<and>
             is_processed st1 ''s_People_chunk_0'')"
proof -
  have h3: "Sheets (book [(''People'', grid_sheet people_grid)])
              (sheetName \<lparr>chunkId = ''s_People_chunk_0'', startRow = 1, endRow = 3, totalRows = 3,
                 sheetName = ''People'', headers = [''Name'', ''City''], processed = True\<rparr>)
            = Some (grid_sheet people_grid)"
    by (simp add: book_def)
  have h3': "Sheets (book [(''People'', grid_sheet people_grid)]) ''People'' = Some (grid_sheet people_grid)"
    by (simp add: book_def)
  show ?thesis
    using people_chunk people_workbook h3' C4_processChunk_twice[OF people_chunk people_workbook h3]
    by blast
qed

text \<open>
  Claim C3: the recommendation client proposes the transformation \<open>remove_duplicates_global\<close>
  for every sheet with more than one chunk. \<open>applyTransformationToChunk\<close> has no case for this
  type. A sheet with the row \<open>ann\<close> twice, chunked at one row, has one copy in each of its two
  chunks; applying the transformation to both chunks in sequence, as the route does, logs it
  as completed twice, and the reassembled sheet still has both copies.
\<close>

theorem C3_global_dedup_removes_nothing:
  "map (\<lambda>c. (chunkId c, startRow c, endRow c)) (chunksToProcess (parsed twins_processor) [] (JString ''Data''))
     = [(''s_Data_chunk_0'', 1, 1), (''s_Data_chunk_1'', 2, 2)] \<and>
   (case apply_sequentially ascii_host (parsed twins_processor)
           (zip [''t1'', ''t2''] (chunksToProcess (parsed twins_processor) [] (JString ''Data'')))
           ((descriptor ''remove_duplicates_global'')\<lparr>t_sheet := JString ''Data''\<rparr>) of
      (r, st) \<Rightarrow> (r, payload st ''s_Data_chunk_0'', payload st ''s_Data_chunk_1'',
                  generateCleanedExcelFromChunks st, map status (getTransformationLog st)))
     = (Inr (),
        Some [[JString ''Name''], [JString ''ann'']],
        Some [[JString ''Name''], [JString ''ann'']],
        Inr [(''Data'', [[JString ''Name''], [JString ''ann''], [JString ''ann'']])],
        [''completed'', ''completed''])"
  by code_simp

section \<open>The mode of a column\<close>

lemma frequency_snoc:
  "frequency (keys @ [k]) =
     AList.update k (case map_of (frequency keys) k of None \<Rightarrow> 1 | Some n \<Rightarrow> n + 1) (frequency keys)"
  by (simp add: frequency_def)

lemma map_of_frequency:
  "map_of (frequency keys) k = (if k \<in> set keys then Some (count_list keys k) else None)"
proof (induction keys rule: rev_induct)
  case Nil
  then show ?case by (simp add: frequency_def)
next
  case (snoc x xs)
  then show ?case by (auto simp: frequency_snoc update_conv')
qed

lemma freq_of_frequency: "freq_of (frequency keys) k = count_list keys k"
  by (simp add: freq_of_def map_of_frequency count_list_0_iff)

lemma keys_frequency: "map fst (frequency keys) = first_seen keys"
proof (induction keys rule: rev_induct)
  case Nil
  then show ?case by (simp add: frequency_def first_seen_def)
next
  case (snoc x xs)
  have dom: "fst ` set (frequency xs) = set xs"
    using snoc by (metis list.set_map set_rev set_remdups first_seen_def)
  show ?case
    using snoc by (auto simp: frequency_snoc update_keys dom first_seen_def)
qed

lemma set_Object_keys: "set (Object_keys obj) = fst ` set obj"
  by (auto simp: Object_keys_def Object_entries_def)

lemma Object_keys_plain:
  "list_all (\<lambda>k. \<not> is_array_index k) (map fst obj) \<Longrightarrow> Object_keys obj = map fst obj"
proof -
  assume a: "list_all (\<lambda>k. \<not> is_array_index k) (map fst obj)"
  then have 1: "filter (\<lambda>e. is_array_index (fst e)) obj = []"
    by (auto simp: list_all_iff filter_empty_conv)
  have 2: "filter (\<lambda>e. \<not> is_array_index (fst e)) obj = obj"
    using a by (auto simp: list_all_iff filter_id_conv)
  show ?thesis by (simp add: Object_keys_def Object_entries_def 1 2)
qed

lemma reduce_last_max:
  fixes f :: "string \<Rightarrow> nat"
  defines "g \<equiv> (\<lambda>a b. if f a > f b then a else b)"
  shows "foldl g k0 rest \<in> set (k0 # rest) \<and>
         (\<forall>x\<in>set (k0 # rest). f x \<le> f (foldl g k0 rest)) \<and>
         foldl g k0 rest = last (filter (\<lambda>k. f k = f (foldl g k0 rest)) (k0 # rest))"
proof (induction rest rule: rev_induct)
  case Nil
  then show ?case by simp
next
  case (snoc b rest)
  let ?r = "foldl g k0 rest"
  have mem: "?r \<in> set (k0 # rest)" and ub: "\<forall>x\<in>set (k0 # rest). f x \<le> f ?r"
    and lst: "?r = last (filter (\<lambda>k. f k = f ?r) (k0 # rest))"
    using snoc by blast+
  have app: "k0 # rest @ [b] = (k0 # rest) @ [b]" by simp
  show ?case
  proof (cases "f ?r > f b")
    case True
    then have r: "foldl g k0 (rest @ [b]) = ?r" by (simp add: g_def)
    have nb: "f b \<noteq> f ?r" using True by simp
    have m': "?r \<in> set (k0 # rest @ [b])" using mem by auto
    have u': "\<forall>x\<in>set (k0 # rest @ [b]). f x \<le> f ?r" using ub True by auto
    have "filter (\<lambda>k. f k = f ?r) ((k0 # rest) @ [b]) = filter (\<lambda>k. f k = f ?r) (k0 # rest)"
      using nb by simp
    then have l': "?r = last (filter (\<lambda>k. f k = f ?r) (k0 # rest @ [b]))"
      using lst unfolding app by simp
    show ?thesis unfolding r using m' u' l' by blast
  next
    case False
    then have r: "foldl g k0 (rest @ [b]) = b" by (simp add: g_def)
    have le: "f ?r \<le> f b" using False by simp
    have m': "b \<in> set (k0 # rest @ [b])" by simp
    have u': "\<forall>x\<in>set (k0 # rest @ [b]). f x \<le> f b" using ub le by (auto intro: le_trans)
    have "filter (\<lambda>k. f k = f b) ((k0 # rest) @ [b]) = filter (\<lambda>k. f k = f b) (k0 # rest) @ [b]"
      by simp
    then have l': "b = last (filter (\<lambda>k. f k = f b) (k0 # rest @ [b]))"
      unfolding app by simp
    show ?thesis unfolding r using m' u' l' by blast
  qed
qed

lemma Max_count:
  assumes "r \<in> set ks" "\<forall>x\<in>set ks. f x \<le> (f r :: nat)"
  shows "Max (f ` set ks) = f r"
  using assms by (intro Max_eqI) auto

lemma mode_key_last:
  assumes "keys \<noteq> []"
  shows "mode_key keys = last (most_frequent keys (Object_keys (frequency keys)))"
proof -
  let ?fr = "frequency keys"
  let ?ks = "Object_keys ?fr"
  let ?f = "count_list keys"
  have sk: "set ?ks = set keys"
    by (simp add: set_Object_keys) (metis keys_frequency list.set_map set_rev set_remdups first_seen_def)
  then have ne: "?ks \<noteq> []" using assms by auto
  then have ht: "hd ?ks # tl ?ks = ?ks" by simp
  let ?r = "foldl (\<lambda>a b. if ?f a > ?f b then a else b) (hd ?ks) (tl ?ks)"
  have mk: "mode_key keys = ?r"
    by (simp add: mode_key_def Let_def freq_of_frequency)
  from reduce_last_max[of ?f "hd ?ks" "tl ?ks"]
  have 1: "?r \<in> set ?ks" and 2: "\<forall>x\<in>set ?ks. ?f x \<le> ?f ?r"
    and 3: "?r = last (filter (\<lambda>k. ?f k = ?f ?r) ?ks)"
    unfolding ht by blast+
  have "Max (?f ` set keys) = ?f ?r" using Max_count[OF 1 2] sk by simp
  then show ?thesis using 3 by (simp add: mk most_frequent_def)
qed

text \<open>
  Claim C9 says that ties of the mode go to the first-encountered value. The reduction over
  the keys of the frequency table keeps its left value only when it is strictly more
  frequent, so of tied values the later key wins. In the column \<open>City\<close> with \<open>Paris\<close>, then
  \<open>Rome\<close>, then an empty cell, both values occur once; \<open>Paris\<close> is the first-encountered of
  the tied values, and the empty cell is filled with \<open>Rome\<close>.
\<close>

theorem C9_counterexample:
  "hd (most_frequent [''Paris'', ''Rome''] (first_seen [''Paris'', ''Rome''])) = ''Paris'' \<and>
   payload people_loaded ''s_People_chunk_0''
     = Some [[JString ''Name'', JString ''City''], [JString ''ann'', JString ''Paris''],
             [JString ''bob'', JString ''Rome''], [JString ''cy'', JNull]] \<and>
   payload (applied ascii_host ''t1'' people_loaded ''s_People_chunk_0'' (mode_descriptor ''City''))
       ''s_People_chunk_0''
     = Some [[JString ''Name'', JString ''City''], [JString ''ann'', JString ''Paris''],
             [JString ''bob'', JString ''Rome''], [JString ''cy'', JString ''Rome'']]"
  by code_simp

text \<open>
  Claim C9 as amended. For \<open>fill_missing\<close> with method \<open>mode\<close> on a column that has a non-empty
  cell, every empty cell of the column is filled with the string form of the last of the most
  frequent values, in the order in which \<^verbatim>\<open>Object.keys\<close> lists the keys of the frequency
  table: array indices first, in ascending order, then the other strings in the order of their
  first occurrence. When no value is an array index, this is the tied value whose first
  occurrence is the latest in row order. (Values that name a member of
  \<^verbatim>\<open>Object.prototype\<close> are left aside.)
\<close>

theorem C9_mode_takes_last_tied:
  assumes "payload st cid = Some (hdrs # rows)"
    and "indexOf hdrs (t_column t) = ci" "ci \<noteq> - 1"
    and "t_method t = JString ''mode''"
    and "keys = map js_String (filter (\<lambda>cell. \<not> is_empty_cell cell) (map (\<lambda>row. js_nth row ci) rows))"
    and "keys \<noteq> []"
    and "list_all (\<lambda>k. k \<notin> set Object_prototype_keys) keys"
  shows "fillMissingValuesInChunk h st cid t =
           Inr (set_payload st cid
                  (hdrs # map (\<lambda>row. if is_empty_cell (js_nth row ci)
                                       then js_set row ci
                                              (JString (last (most_frequent keys (Object_keys (frequency keys)))))
                                       else row) rows)) \<and>
         set (Object_keys (frequency keys)) = set keys \<and>
         (list_all (\<lambda>k. \<not> is_array_index k) keys \<longrightarrow> Object_keys (frequency keys) = first_seen keys)"
proof -
  let ?cd = "filter (\<lambda>cell. \<not> is_empty_cell cell) (map (\<lambda>row. js_nth row ci) rows)"
  have ne: "?cd \<noteq> []" using assms(5,6) by auto
  have fv: "fill_value h t ?cd = JString (last (most_frequent keys (Object_keys (frequency keys))))"
    using assms(4) ne mode_key_last[OF assms(6)] by (simp add: fill_value_def assms(5))
  have a: "fillMissingValuesInChunk h st cid t =
           Inr (set_payload st cid
                  (hdrs # map (\<lambda>row. if is_empty_cell (js_nth row ci)
                                       then js_set row ci
                                              (JString (last (most_frequent keys (Object_keys (frequency keys)))))
                                       else row) rows))"
    using assms(1,3) fv unfolding assms(2)[symmetric]
    by (simp add: fillMissingValuesInChunk_def with_payload_def payload_def Let_def cong del: if_weak_cong)
  have sk: "set (map fst (frequency keys)) = set keys"
    by (simp only: keys_frequency first_seen_def set_rev set_remdups)
  have b: "set (Object_keys (frequency keys)) = set keys"
    using sk by (simp add: set_Object_keys)
  have c: "Object_keys (frequency keys) = first_seen keys" if "list_all (\<lambda>k. \<not> is_array_index k) keys"
  proof -
    have "list_all (\<lambda>k. \<not> is_array_index k) (map fst (frequency keys))"
      using that sk by (simp add: list_all_iff)
    then have "Object_keys (frequency keys) = map fst (frequency keys)" by (rule Object_keys_plain)
    then show ?thesis by (simp only: keys_frequency)
  qed
  show ?thesis using a b c by blast
qed

theorem C9_mode_takes_last_tied_witness:
  "payload people_loaded ''s_People_chunk_0''
     = Some ([JString ''Name'', JString ''City''] #
             [[JString ''ann'', JString ''Paris''], [JString ''bob'', JString ''Rome''], [JString ''cy'', JNull]]) \<and>
   indexOf [JString ''Name'', JString ''City''] (t_column (mode_descriptor ''City'')) = 1 \<and>
   (1 :: int) \<noteq> - 1 \<and>
   t_method (mode_descriptor ''City'') = JString ''mode'' \<and>
   [''Paris'', ''Rome''] = map js_String (filter (\<lambda>cell. \<not> is_empty_cell cell)
       (map (\<lambda>row. js_nth row 1)
          [[JString ''ann'', JString ''Paris''], [JString ''bob'', JString ''Rome''], [JString ''cy'', JNull]])) \<and>
   [''Paris'', ''Rome''] \<noteq> [] \<and>
   list_all (\<lambda>k. k \<notin> set Object_prototype_keys) [''Paris'', ''Rome''] \<and>
   list_all (\<lambda>k. \<not> is_array_index k) [''Paris'', ''Rome''] \<and>
   fillMissingValuesInChunk ascii_host people_loaded ''s_People_chunk_0'' (mode_descriptor ''City'') =
     Inr (set_payload people_loaded ''s_People_chunk_0''
            ([JString ''Name'', JString ''City''] #
             map (\<lambda>row. if is_empty_cell (js_nth row 1)
                         then js_set row 1
                                (JString (last (most_frequent [''Paris'', ''Rome'']
                                                  (Object_keys (frequency [''Paris'', ''Rome'']))))) 
                         else row)
               [[JString ''ann'', JString ''Paris''], [JString ''bob'', JString ''Rome''], [JString ''cy'', JNull]])) \<and>
   Object_keys (frequency [''Paris'', ''Rome'']) = first_seen [''Paris'', ''Rome''] \<and>
   last (most_frequent [''Paris'', ''Rome''] (Object_keys (frequency [''Paris'', ''Rome'']))) = ''Rome''"
proof -
  let ?rows = "[[JString ''ann'', JString ''Paris''], [JString ''bob'', JString ''Rome''], [JString ''cy'', JNull]]"
  have h1: "payload people_loaded ''s_People_chunk_0'' = Some ([JString ''Name'', JString ''City''] # ?rows)"
    by code_simp
  have h2: "indexOf [JString ''Name'', JString ''City''] (t_column (mode_descriptor ''City'')) = 1"
    by (simp add: mode_descriptor_def descriptor_def indexOf_def)
  have h3: "(1 :: int) \<noteq> - 1" by simp
  have h4: "t_method (mode_descriptor ''City'') = JString ''mode''"
    by (simp add: mode_descriptor_def descriptor_def)
  have h5: "[''Paris'', ''Rome''] = map js_String (filter (\<lambda>cell. \<not> is_empty_cell cell)
       (map (\<lambda>row. js_nth row 1) ?rows))"
    by (simp add: is_empty_cell_def js_nth_def)
  have h6: "[''Paris'', ''Rome''] \<noteq> []" by simp
  have h7: "list_all (\<lambda>k. k \<notin> set Object_prototype_keys) [''Paris'', ''Rome'']"
    by (simp add: Object_prototype_keys_def)
  have h8: "list_all (\<lambda>k. \<not> is_array_index k) [''Paris'', ''Rome'']"
    by (simp add: is_array_index_def is_digit_def)
  have r: "last (most_frequent [''Paris'', ''Rome''] (Object_keys (frequency [''Paris'', ''Rome'']))) = ''Rome''"
    by code_simp
  show ?thesis
    using h1 h2 h3 h4 h5 h6 h7 h8 r
      C9_mode_takes_last_tied[OF h1 h2 h3 h4 h5 h6 h7, of ascii_host]
    by blast
qed

section \<open>Aggregation of issues\<close>

lemma column_issues_examples:
  "list_all (\<lambda>i. length (examples_of i) \<le> 3) (column_issues h cid sheet dataRows colIndex hdr)"
  by (simp add: column_issues_def Let_def examples_of_def)

lemma analyzeChunkQuality_examples:
  assumes "analyzeChunkQuality h st cid = Inr issues"
  shows "list_all (\<lambda>i. length (examples_of i) \<le> 5) issues"
proof -
  have c: "list_all (\<lambda>i. length (examples_of i) \<le> 3)
             (concat (map (\<lambda>(colIndex, hdr). column_issues h cid sheet dataRows colIndex hdr) cols))"
    for sheet dataRows cols
    using column_issues_examples by (induction cols) (auto simp: list_all_iff)
  have d: "list_all (\<lambda>i. length (examples_of i) \<le> 3) (duplicate_issues cid sheet dataRows)" for sheet dataRows
    by (simp add: duplicate_issues_def Let_def examples_of_def)
  have "list_all (\<lambda>i. length (examples_of i) \<le> 3) issues"
    using assms c d
    by (auto simp: analyzeChunkQuality_def Let_def list_all_iff split: option.splits if_splits)
  then show ?thesis by (auto simp: list_all_iff)
qed












section \<open>Reassembling the workbook\<close>

subsection \<open>The state after materializing chunks\<close>








subsection \<open>Collecting the payloads by sheet\<close>
















end
